theory Spec2Isabelle
  imports Main
begin

section \<open>Data model of bulk\_create.py\<close>

text \<open>
  The script builds request bodies as nested Python dicts and lists and hands them to the
  Google API client. A dict is an association list in insertion order; \<open>d[k] = v\<close>
  replaces the value of an existing key in place and appends a new key at the end.
\<close>

datatype OBInstType = SERVER | CLIENT

datatype json =
    JNull
  | JBool bool
  | JInt int
  | JStr string
  | JList "json list"
  | JObj "(string \<times> json) list"

type_synonym dict = "(string \<times> json) list"

fun setitem :: "dict \<Rightarrow> string \<Rightarrow> json \<Rightarrow> dict" where
  "setitem [] k v = [(k, v)]"
| "setitem ((k', v') # d) k v = (if k' = k then (k, v) # d else (k', v') # setitem d k v)"

text \<open>The namespace produced by the argument parser (\<open>args\<close>).\<close>

record Args =
  args_project :: string
  args_region :: string
  args_zone :: string
  args_image :: string
  args_scopes :: "string list"
  args_subnet :: "string option"
  args_policy :: "string option"
  args_nic_type :: "string option"
  args_enable_tier1_networking :: bool
  args_num_servers :: int
  args_num_clients :: int
  args_server_type :: string
  args_client_type :: string
  args_server_prefix :: string
  args_client_prefix :: string
  args_num_ssd_per_server :: int

text \<open>The dicts \<open>self.server\<close> and \<open>self.client\<close> of class OBOptions.\<close>

record ServerGroup =
  server_count :: int
  server_type :: string
  server_prefix :: string
  server_num_ssd_per :: int

record ClientGroup =
  client_count :: int
  client_type :: string
  client_prefix :: string

record OBOptions =
  opts_project :: string
  opts_region :: string
  opts_zone :: string
  opts_image :: string
  opts_scopes :: "string list"
  opts_subnet :: "string option"
  opts_policy :: "string option"
  opts_nic_type :: "string option"
  opts_enable_tier1_networking :: bool
  opts_server :: ServerGroup
  opts_client :: ClientGroup

text \<open>
  Python truthiness of an optional string (\<open>if args.subnet:\<close>, \<open>if opts.policy:\<close>,
  \<open>if opts.nic_type:\<close>): \<open>None\<close> and the empty string are false.
\<close>

fun truthy :: "string option \<Rightarrow> bool" where
  "truthy None = False"
| "truthy (Some s) = (s \<noteq> [])"

section \<open>OBOptions.\_\_init\_\_\<close>

definition nic_warning :: string where
  "nic_warning =
     ''Warning: Setting nic-type to '' @ [CHR 0x22] @ ''GVNIC'' @ [CHR 0x22]
       @ '' for Tier 1 networking.''"

text \<open>
  The constructor returns the lines it printed together with the object it built.
\<close>

definition OBOptions_init :: "Args \<Rightarrow> string list \<times> OBOptions" where
  "OBOptions_init args =
     (let override = (args_enable_tier1_networking args \<and> args_nic_type args \<noteq> Some ''GVNIC'')
      in (if override then [nic_warning] else [],
          \<lparr> opts_project = args_project args,
            opts_region = args_region args,
            opts_zone = args_zone args,
            opts_image = ''global/images/'' @ args_image args,
            opts_scopes = map (\<lambda>item. ''https://www.googleapis.com/auth/'' @ item) (args_scopes args),
            opts_subnet =
              (if truthy (args_subnet args)
               then Some (''regions/'' @ args_region args @ ''/subnetworks/'' @ the (args_subnet args))
               else None),
            opts_policy = args_policy args,
            opts_nic_type = (if override then Some ''GVNIC'' else args_nic_type args),
            opts_enable_tier1_networking = args_enable_tier1_networking args,
            opts_server =
              \<lparr> server_count = args_num_servers args,
                server_type = args_server_type args,
                server_prefix = args_server_prefix args,
                server_num_ssd_per = args_num_ssd_per_server args \<rparr>,
            opts_client =
              \<lparr> client_count = args_num_clients args,
                client_type = args_client_type args,
                client_prefix = args_client_prefix args \<rparr> \<rparr>))"

section \<open>Resource descriptors\<close>

definition setup_network_interface :: "OBOptions \<Rightarrow> dict" where
  "setup_network_interface opts =
     (let network_interface =
            [(''accessConfigs'',
              JList [JObj [(''type'', JStr ''ONE_TO_ONE_NAT''),
                           (''name'', JStr ''External NAT''),
                           (''networkTier'', JStr ''PREMIUM'')]])];
          network_interface =
            (if truthy (opts_subnet opts)
             then setitem network_interface ''subnetwork'' (JStr (the (opts_subnet opts)))
             else network_interface);
          network_interface =
            (if truthy (opts_nic_type opts)
             then setitem network_interface ''nicType'' (JStr (the (opts_nic_type opts)))
             else network_interface)
      in network_interface)"

definition local_disk :: dict where
  "local_disk =
     [(''type'', JStr ''SCRATCH''),
      (''initializeParams'', JObj [(''diskType'', JStr ''local-ssd'')]),
      (''autoDelete'', JStr ''true''),
      (''interface'', JStr ''NVME'')]"

text \<open>
  \<open>[local_disk] * n\<close> is Python's list repetition: the empty list for \<open>n \<le> 0\<close>, which is
  what \<open>replicate (nat n)\<close> gives.
\<close>

definition setup_disks :: "OBOptions \<Rightarrow> bool \<Rightarrow> dict list" where
  "setup_disks opts is_server =
     (let boot_disk =
            [(''type'', JStr ''PERSISTENT''),
             (''boot'', JStr ''true''),
             (''initializeParams'', JObj [(''sourceImage'', JStr (opts_image opts))]),
             (''autoDelete'', JStr ''true'')];
          boot_disk =
            (if opts_nic_type opts = Some ''GVNIC''
             then setitem boot_disk ''guestOsFeatures'' (JList [JObj [(''type'', JStr ''GVNIC'')]])
             else boot_disk);
          disks = [boot_disk]
      in if is_server \<and> server_num_ssd_per (opts_server opts) > 0
         then disks @ replicate (nat (server_num_ssd_per (opts_server opts))) local_disk
         else disks)"

definition setup_instance_properties :: "OBOptions \<Rightarrow> bool \<Rightarrow> dict \<Rightarrow> dict list \<Rightarrow> dict" where
  "setup_instance_properties opts is_server net_int disks =
     (let instance_properties =
            [(''networkInterfaces'', JList [JObj net_int]),
             (''disks'', JList (map JObj disks)),
             (''serviceAccounts'', JList [JObj [(''scopes'', JList (map JStr (opts_scopes opts)))]])];
          instance_properties =
            (if is_server
             then setitem instance_properties ''machineType'' (JStr (server_type (opts_server opts)))
             else setitem instance_properties ''machineType'' (JStr (client_type (opts_client opts))));
          instance_properties =
            (if truthy (opts_policy opts)
             then setitem
                    (setitem instance_properties ''resourcePolicies''
                       (JList [JStr (the (opts_policy opts))]))
                    ''scheduling''
                    (JObj [(''onHostMaintenance'', JStr ''TERMINATE''),
                           (''automaticRestart'', JStr ''false'')])
             else instance_properties);
          instance_properties =
            (if opts_enable_tier1_networking opts
             then setitem instance_properties ''networkPerformanceConfig''
                    (JObj [(''totalEgressBandwidthTier'', JStr ''TIER_1'')])
             else instance_properties)
      in instance_properties)"

section \<open>The provider, the log and the outcome of a call\<close>

text \<open>
  An operation resource as the provider returns it: \<open>operationType\<close>, \<open>name\<close> and
  \<open>status\<close> are always present, \<open>error\<close> only on a failed operation. A present
  \<open>error\<close> key is \<open>Some\<close> of its value (the test is \<open>'error' in result\<close>).
\<close>

record operation =
  op_operationType :: string
  op_name :: string
  op_status :: string
  op_error :: "json option"

text \<open>
  \<open>googleapiclient.errors.HttpError\<close> holds the bytes of the response body in
  \<open>e.content\<close>. What \<open>json.loads\<close> makes of them: the bytes are not text in the
  encoding it detects, or the text is not JSON, or the value it parses.
\<close>

datatype http_content = BadEncoding | BadJSON | Parsed json

datatype http_error = HttpError http_content

datatype py_exception =
    Exception json
  | UnicodeDecodeError
  | JSONDecodeError
  | AttributeError

text \<open>
  Everything the script does to the outside, in order: text written to standard output,
  calls of the \<open>utils.verify_*\<close> helpers, the construction of the API client, and the two
  provider requests, each with the answer it got.
\<close>

datatype event =
    Stdout string
  | VerifyCall string "string list" bool
  | DiscoveryBuild bool
  | BulkInsert string string dict "http_error + operation"
  | ZoneWait string string string operation

text \<open>
  The collaborators outside the script. Each answer may depend on everything that
  happened before (the log so far), so that the provider can answer the same query
  differently each time. \<open>verify_exists\<close> stands for the helpers of module \<open>utils\<close>,
  \<open>credentials\<close> tells whether \<open>googleapiclient.discovery.build\<close> returns (or raises
  \<open>DefaultCredentialsError\<close>), and \<open>str_value\<close> is Python's \<open>str\<close> on a number, a
  list or a dict. A submission is answered with an operation or with the \<open>HttpError\<close>
  that the source catches; a wait query is answered with an operation. Failures of the
  client library that the source does not handle anywhere are outside this model.
\<close>

record provider =
  verify_exists :: "event list \<Rightarrow> string \<Rightarrow> string list \<Rightarrow> bool"
  credentials :: "event list \<Rightarrow> bool"
  bulkInsert :: "event list \<Rightarrow> string \<Rightarrow> string \<Rightarrow> dict \<Rightarrow> http_error + operation"
  zoneWait :: "event list \<Rightarrow> string \<Rightarrow> string \<Rightarrow> string \<Rightarrow> operation"
  str_value :: "json \<Rightarrow> string"

text \<open>
  How a call ends: it returns, it calls \<open>sys.exit\<close>, it raises, or (\<open>Polling\<close>) it is
  still inside the polling loop when the fuel, the number of wait queries allowed to one
  call of \<open>wait_for_operation\<close>, is used up.
\<close>

datatype 'a outcome = Return 'a | SysExit int | Raised py_exception | Polling

definition py_print :: "string \<Rightarrow> event" where
  "py_print s = Stdout (s @ [CHR 0x0A])"

section \<open>wait\_for\_operation\<close>

fun wait_loop ::
  "nat \<Rightarrow> provider \<Rightarrow> operation \<Rightarrow> OBOptions \<Rightarrow> event list \<Rightarrow> operation outcome \<times> event list"
where
  "wait_loop 0 compute operation opts log = (Polling, log)"
| "wait_loop (Suc fuel) compute operation opts log =
     (let result = zoneWait compute log (opts_project opts) (opts_zone opts) (op_name operation);
          log = log @ [ZoneWait (opts_project opts) (opts_zone opts) (op_name operation) result]
      in if op_status result = ''DONE''
         then (case op_error result of
                 Some e \<Rightarrow> (Raised (Exception e), log @ [py_print ''done.''])
               | None \<Rightarrow> (Return result, log @ [py_print ''done.'']))
         else wait_loop fuel compute operation opts log)"

definition wait_for_operation ::
  "nat \<Rightarrow> provider \<Rightarrow> operation \<Rightarrow> OBOptions \<Rightarrow> event list \<Rightarrow> operation outcome \<times> event list"
where
  "wait_for_operation fuel compute operation opts log =
     wait_loop fuel compute operation opts
       (log @ [Stdout (''Waiting for '' @ op_operationType operation @ '' operation to finish...'' @ '' '')])"

section \<open>create\_instances\<close>

text \<open>The request body that \<open>create_instances\<close> assembles for a role.\<close>

definition request_body :: "OBOptions \<Rightarrow> dict \<Rightarrow> OBInstType \<Rightarrow> dict" where
  "request_body opts network_interface inst_type =
     (let is_server = (inst_type = SERVER);
          count = (if is_server then server_count (opts_server opts)
                   else client_count (opts_client opts));
          name_pattern = (if is_server then server_prefix (opts_server opts) @ ''##''
                          else client_prefix (opts_client opts) @ ''##'');
          disks = setup_disks opts is_server;
          instance_properties = setup_instance_properties opts is_server network_interface disks
      in [(''count'', JInt count),
          (''namePattern'', JStr name_pattern),
          (''instanceProperties'', JObj instance_properties)])"

text \<open>
  \<open>json.loads(e.content).get("error").get("message")\<close>: \<open>json.loads\<close> raises on bytes
  it cannot decode or parse, \<open>get\<close> exists on a dict only, and gives \<open>None\<close> for a
  missing key.
\<close>

definition error_message :: "http_content \<Rightarrow> py_exception + json" where
  "error_message content =
     (case content of
        BadEncoding \<Rightarrow> Inl UnicodeDecodeError
      | BadJSON \<Rightarrow> Inl JSONDecodeError
      | Parsed (JObj d) \<Rightarrow>
          (case map_of d ''error'' of
             Some (JObj e) \<Rightarrow> Inr (case map_of e ''message'' of None \<Rightarrow> JNull | Some m \<Rightarrow> m)
           | _ \<Rightarrow> Inl AttributeError)
      | Parsed _ \<Rightarrow> Inl AttributeError)"

text \<open>
  The text that an f-string puts for a value: a string as it is, \<open>None\<close>, \<open>True\<close> and
  \<open>False\<close> by name, any other value as \<open>str_value\<close> gives it.
\<close>

definition py_str :: "provider \<Rightarrow> json \<Rightarrow> string" where
  "py_str compute v =
     (case v of
        JStr s \<Rightarrow> s
      | JNull \<Rightarrow> ''None''
      | JBool b \<Rightarrow> (if b then ''True'' else ''False'')
      | _ \<Rightarrow> str_value compute v)"

text \<open>
  \<open>create_instances\<close> has no return statement: the result of \<open>wait_for_operation\<close> is
  dropped, its exit or exception is not.
\<close>

definition create_instances ::
  "nat \<Rightarrow> provider \<Rightarrow> OBOptions \<Rightarrow> dict \<Rightarrow> OBInstType \<Rightarrow> event list \<Rightarrow> unit outcome \<times> event list"
where
  "create_instances fuel compute opts network_interface inst_type log =
     (let body = request_body opts network_interface inst_type;
          answer = bulkInsert compute log (opts_project opts) (opts_zone opts) body;
          log = log @ [BulkInsert (opts_project opts) (opts_zone opts) body answer]
      in case answer of
           Inl (HttpError content) \<Rightarrow>
             (case error_message content of
                Inl exn \<Rightarrow> (Raised exn, log)
              | Inr error_msg \<Rightarrow>
                  (SysExit 1, log @ [py_print (''Error: '' @ py_str compute error_msg)]))
         | Inr operation \<Rightarrow>
             (case wait_for_operation fuel compute operation opts log of
                (r, log) \<Rightarrow> (map_outcome (\<lambda>_. ()) r, log)))"

section \<open>verify\_inputs and the main program\<close>

text \<open>
  One call of a \<open>utils.verify_*\<close> helper: the answer and the log with the call recorded.
\<close>

definition verify :: "provider \<Rightarrow> string \<Rightarrow> string list \<Rightarrow> event list \<Rightarrow> bool \<times> event list" where
  "verify compute kind ids log =
     (let answer = verify_exists compute log kind ids
      in (answer, log @ [VerifyCall kind ids answer]))"

text \<open>
  A chain of checks with the short-circuit order of the source: the first check that
  fails ends the chain, and the later helpers are not called.
\<close>

fun verify_all :: "provider \<Rightarrow> (string \<times> string list) list \<Rightarrow> event list \<Rightarrow> bool \<times> event list" where
  "verify_all compute [] log = (True, log)"
| "verify_all compute ((kind, ids) # rest) log =
     (case verify compute kind ids log of
        (False, log') \<Rightarrow> (False, log')
      | (True, log') \<Rightarrow> verify_all compute rest log')"

definition verify_inputs :: "provider \<Rightarrow> Args \<Rightarrow> event list \<Rightarrow> bool \<times> event list" where
  "verify_inputs compute args log =
     verify_all compute
       ([(''project'', [args_project args]),
         (''region'', [args_project args, args_region args]),
         (''zone'', [args_project args, args_region args, args_zone args]),
         (''image'', [args_project args, args_image args]),
         (''machine_type'', [args_project args, args_zone args, args_server_type args]),
         (''machine_type'', [args_project args, args_zone args, args_client_type args])]
        @ (if truthy (args_subnet args)
           then [(''subnet'', [args_project args, args_region args, the (args_subnet args)])]
           else [])
        @ (if truthy (args_policy args)
           then [(''policy'', [args_project args, args_region args, the (args_policy args)])]
           else []))
       log"

definition credentials_message :: string where
  "credentials_message =
     ''No Google application credentials.'' @ [CHR 0x0A]
     @ ''Please do one of the following before re-running the script:'' @ [CHR 0x0A]
     @ ''1) Run `gcloud auth application-default login`'' @ [CHR 0x0A]
     @ ''OR'' @ [CHR 0x0A]
     @ ''2) Set the GOOGLE_APPLICATION_CREDENTIALS environment variable'' @ [CHR 0x0A]"

text \<open>
  The two \<open>if\<close> statements that end the main program, from the configuration and the
  network interface built before them. An exit or an exception in the server flow ends
  the program, so the second statement is reached only when the first one returned.
\<close>

definition provision ::
  "nat \<Rightarrow> provider \<Rightarrow> Args \<Rightarrow> OBOptions \<Rightarrow> dict \<Rightarrow> event list \<Rightarrow> unit outcome \<times> event list"
where
  "provision fuel compute args ob_opts net_int log =
     (case (if args_num_servers args > 0
            then create_instances fuel compute ob_opts net_int SERVER log
            else (Return (), log)) of
        (Return _, log) \<Rightarrow>
          (if args_num_clients args > 0
           then create_instances fuel compute ob_opts net_int CLIENT log
           else (Return (), log))
      | (r, log) \<Rightarrow> (r, log))"

text \<open>
  The main program. Besides the outcome and the log it returns the module variable
  \<open>ob_opts\<close>: \<open>None\<close> as long as \<open>OBOptions(args)\<close> has not been evaluated.
\<close>

definition main :: "nat \<Rightarrow> provider \<Rightarrow> Args \<Rightarrow> unit outcome \<times> OBOptions option \<times> event list" where
  "main fuel compute args =
     (if args_num_servers args + args_num_clients args < 1
      then (SysExit 1, None, [py_print ''Error: Must specify at least one server or client.''])
      else case verify_inputs compute args [] of
             (False, log) \<Rightarrow> (SysExit 1, None, log)
           | (True, log) \<Rightarrow>
               (let (printed, ob_opts) = OBOptions_init args;
                    log = log @ map py_print printed;
                    built = credentials compute log;
                    log = log @ [DiscoveryBuild built]
                in if \<not> built
                   then (SysExit 1, Some ob_opts, log @ [py_print credentials_message])
                   else (let net_int = setup_network_interface ob_opts;
                             (r, log) = provision fuel compute args ob_opts net_int log
                         in (r, Some ob_opts, log))))"

section \<open>Reading a log\<close>

text \<open>The provider requests of a log (submissions and wait queries), in order.\<close>

fun is_call :: "event \<Rightarrow> bool" where
  "is_call (BulkInsert p z body answer) = True"
| "is_call (ZoneWait p z n result) = True"
| "is_call _ = False"

definition calls :: "event list \<Rightarrow> event list" where
  "calls log = filter is_call log"

text \<open>The operations that the wait queries of a log returned, in order.\<close>

fun wait_results :: "event list \<Rightarrow> operation list" where
  "wait_results [] = []"
| "wait_results (ZoneWait p z n result # es) = result # wait_results es"
| "wait_results (_ # es) = wait_results es"

text \<open>The submission of a role's request, and wait queries on an operation.\<close>

definition submission :: "OBOptions \<Rightarrow> dict \<Rightarrow> OBInstType \<Rightarrow> http_error + operation \<Rightarrow> event" where
  "submission opts net_int inst_type answer =
     BulkInsert (opts_project opts) (opts_zone opts) (request_body opts net_int inst_type) answer"

definition waits_on :: "OBOptions \<Rightarrow> operation \<Rightarrow> operation list \<Rightarrow> event list" where
  "waits_on opts operation results =
     map (ZoneWait (opts_project opts) (opts_zone opts) (op_name operation)) results"

text \<open>
  The wait queries that follow a submission: none after a rejected one, queries on the
  returned operation after an accepted one.
\<close>

fun polls :: "OBOptions \<Rightarrow> http_error + operation \<Rightarrow> operation list \<Rightarrow> event list" where
  "polls opts (Inl err) results = []"
| "polls opts (Inr operation) results = waits_on opts operation results"

section \<open>Concrete inputs\<close>

definition example_args :: "string option \<Rightarrow> bool \<Rightarrow> int \<Rightarrow> int \<Rightarrow> Args" where
  "example_args nic tier1 servers clients =
     \<lparr> args_project = ''proj'', args_region = ''us-central1'', args_zone = ''us-central1-a'',
       args_image = ''orangefs'', args_scopes = [''compute''], args_subnet = None,
       args_policy = Some ''compact'', args_nic_type = nic,
       args_enable_tier1_networking = tier1, args_num_servers = servers,
       args_num_clients = clients, args_server_type = ''n2-standard-8'',
       args_client_type = ''n2-standard-4'', args_server_prefix = ''srv'',
       args_client_prefix = ''cli'', args_num_ssd_per_server = 2 \<rparr>"

text \<open>
  A provider that accepts every identifier, answers every submission with \<open>answer\<close>, and
  answers a wait query with \<open>RUNNING\<close> unless the event before it was a wait query too,
  when it answers with status \<open>final\<close> and error \<open>err\<close>.
\<close>

definition example_provider :: "http_error + operation \<Rightarrow> string \<Rightarrow> json option \<Rightarrow> provider" where
  "example_provider answer final err =
     \<lparr> verify_exists = (\<lambda>log kind ids. True),
       credentials = (\<lambda>log. True),
       bulkInsert = (\<lambda>log p z body. answer),
       zoneWait = (\<lambda>log p z n.
          (case (if log = [] then Stdout [] else last log) of
             ZoneWait p' z' n' r \<Rightarrow>
               \<lparr> op_operationType = ''insert'', op_name = n, op_status = final, op_error = err \<rparr>
           | _ \<Rightarrow>
               \<lparr> op_operationType = ''insert'', op_name = n, op_status = ''RUNNING'',
                 op_error = None \<rparr>)),
       str_value = (\<lambda>v. ''?'') \<rparr>"

definition example_operation :: operation where
  "example_operation =
     \<lparr> op_operationType = ''insert'', op_name = ''operation-1'', op_status = ''RUNNING'',
       op_error = None \<rparr>"

definition quota_exceeded :: http_error where
  "quota_exceeded =
     HttpError (Parsed (JObj [(''error'', JObj [(''code'', JInt 403),
                                                (''message'', JStr ''quota exceeded'')])]))"

text \<open>A provider that answers every wait query with DONE and error \<open>err\<close>.\<close>

definition prompt_provider :: "json option \<Rightarrow> provider" where
  "prompt_provider err =
     (example_provider (Inr example_operation) ''DONE'' err)
       \<lparr> zoneWait := (\<lambda>log p z n.
            \<lparr> op_operationType = ''insert'', op_name = n, op_status = ''DONE'',
              op_error = err \<rparr>) \<rparr>"

text \<open>A rejection whose body is JSON without an \<open>error\<close> object.\<close>

definition bad_gateway :: http_error where
  "bad_gateway = HttpError (Parsed (JObj [(''message'', JStr ''Bad Gateway'')]))"

text \<open>
  The log of the main program on \<open>example_args\<close> with \<open>example_provider\<close> when it
  reaches the role flows, and the log of one role flow that polls twice.
\<close>

definition example_preamble_log :: "event list" where
  "example_preamble_log =
     [VerifyCall ''project'' [''proj''] True,
      VerifyCall ''region'' [''proj'', ''us-central1''] True,
      VerifyCall ''zone'' [''proj'', ''us-central1'', ''us-central1-a''] True,
      VerifyCall ''image'' [''proj'', ''orangefs''] True,
      VerifyCall ''machine_type'' [''proj'', ''us-central1-a'', ''n2-standard-8''] True,
      VerifyCall ''machine_type'' [''proj'', ''us-central1-a'', ''n2-standard-4''] True,
      VerifyCall ''policy'' [''proj'', ''us-central1'', ''compact''] True,
      py_print nic_warning,
      DiscoveryBuild True]"

definition example_flow :: "OBOptions \<Rightarrow> dict \<Rightarrow> OBInstType \<Rightarrow> event list" where
  "example_flow opts ni role =
     [submission opts ni role (Inr example_operation),
      Stdout ''Waiting for insert operation to finish... '',
      ZoneWait (opts_project opts) (opts_zone opts) ''operation-1'' example_operation,
      ZoneWait (opts_project opts) (opts_zone opts) ''operation-1''
        (example_operation \<lparr> op_status := ''DONE'' \<rparr>),
      py_print ''done.'']"

section \<open>Properties of the configuration and the descriptors\<close>

lemma map_of_setitem: "map_of (setitem d k v) k' = (if k' = k then Some v else map_of d k')"
  by (induction d k v rule: setitem.induct) auto

lemma setup_instance_properties_eq:
  "setup_instance_properties opts is_server net_int disks =
     [(''networkInterfaces'', JList [JObj net_int]),
      (''disks'', JList (map JObj disks)),
      (''serviceAccounts'', JList [JObj [(''scopes'', JList (map JStr (opts_scopes opts)))]]),
      (''machineType'',
       JStr (if is_server then server_type (opts_server opts) else client_type (opts_client opts)))]
     @ (if truthy (opts_policy opts)
        then [(''resourcePolicies'', JList [JStr (the (opts_policy opts))]),
              (''scheduling'', JObj [(''onHostMaintenance'', JStr ''TERMINATE''),
                                     (''automaticRestart'', JStr ''false'')])]
        else [])
     @ (if opts_enable_tier1_networking opts
        then [(''networkPerformanceConfig'', JObj [(''totalEgressBandwidthTier'', JStr ''TIER_1'')])]
        else [])"
  unfolding setup_instance_properties_def Let_def
  by (cases is_server; cases "truthy (opts_policy opts)"; cases "opts_enable_tier1_networking opts")
     simp_all

text \<open>
  C3. Whenever tier-1 networking is enabled, the configuration built from the arguments
  has NIC type GVNIC, whether the requested NIC type was unset, GVNIC already, or the
  other accepted value (the empty string). The constructor has no failing branch: it is
  a total function of the arguments.
\<close>

theorem normalizer_tier1_forces_gvnic:
  "args_enable_tier1_networking args \<Longrightarrow> opts_nic_type (snd (OBOptions_init args)) = Some ''GVNIC''"
  by (simp add: OBOptions_init_def Let_def)

theorem normalizer_tier1_forces_gvnic_witness:
  "args_enable_tier1_networking (example_args None True 1 1)
   \<and> opts_nic_type (snd (OBOptions_init (example_args None True 1 1))) = Some ''GVNIC''
   \<and> opts_nic_type (snd (OBOptions_init (example_args (Some ''GVNIC'') True 1 1))) = Some ''GVNIC''
   \<and> opts_nic_type (snd (OBOptions_init (example_args (Some '''') True 1 1))) = Some ''GVNIC''"
  using normalizer_tier1_forces_gvnic [of "example_args None True 1 1"]
    normalizer_tier1_forces_gvnic [of "example_args (Some ''GVNIC'') True 1 1"]
    normalizer_tier1_forces_gvnic [of "example_args (Some '''') True 1 1"]
  by (simp add: example_args_def)

text \<open>
  C6, as stated, fails: with the NIC type unset and tier-1 networking enabled the
  constructor prints the warning.
\<close>

theorem warning_on_unset_nic_counterexample:
  "fst (OBOptions_init (example_args None True 1 1)) = [nic_warning]"
  by (simp add: OBOptions_init_def example_args_def)

text \<open>
  C6, amended. The warning is printed exactly when tier-1 networking is enabled and the
  requested NIC type is not GVNIC, and an unset NIC type counts as not GVNIC; it is
  printed once, and nothing else is printed.
\<close>

theorem warning_iff_override:
  "fst (OBOptions_init args) =
     (if args_enable_tier1_networking args \<and> args_nic_type args \<noteq> Some ''GVNIC''
      then [nic_warning] else [])"
  by (simp add: OBOptions_init_def Let_def)

text \<open>
  C4. The disk list starts with the boot disk (persistent, bootable, auto-delete, created
  from the configured image) and continues with copies of the scratch disk only: none
  for the client role, and as many as the configured SSD count for the server role (a
  count below zero gives none). A server with two SSDs gets three disks.
\<close>

theorem setup_disks_boot_then_scratch:
  "\<exists>boot_disk.
     setup_disks opts is_server =
       boot_disk # replicate (if is_server then nat (server_num_ssd_per (opts_server opts)) else 0) local_disk
     \<and> map_of boot_disk ''type'' = Some (JStr ''PERSISTENT'')
     \<and> map_of boot_disk ''boot'' = Some (JStr ''true'')
     \<and> map_of boot_disk ''autoDelete'' = Some (JStr ''true'')
     \<and> map_of boot_disk ''initializeParams'' = Some (JObj [(''sourceImage'', JStr (opts_image opts))])
     \<and> map_of local_disk ''type'' = Some (JStr ''SCRATCH'')
     \<and> map_of local_disk ''boot'' = None
     \<and> length (setup_disks opts False) = 1
     \<and> (0 \<le> server_num_ssd_per (opts_server opts) \<longrightarrow>
          int (length (tl (setup_disks opts True))) = server_num_ssd_per (opts_server opts))
     \<and> (server_num_ssd_per (opts_server opts) = 2 \<longrightarrow> length (setup_disks opts True) = 3)"
  by (simp add: setup_disks_def Let_def map_of_setitem local_disk_def)

theorem setup_disks_boot_then_scratch_witness:
  "(0::int) \<le> 2
   \<and> server_num_ssd_per (opts_server (snd (OBOptions_init (example_args None False 1 1)))) = 2
   \<and> length (setup_disks (snd (OBOptions_init (example_args None False 1 1))) True) = 3
   \<and> int (length (tl (setup_disks (snd (OBOptions_init (example_args None False 1 1))) True))) = 2
   \<and> setup_disks (snd (OBOptions_init (example_args None False 1 1))) True =
        [ [(''type'', JStr ''PERSISTENT''), (''boot'', JStr ''true''),
          (''initializeParams'', JObj [(''sourceImage'', JStr ''global/images/orangefs'')]),
          (''autoDelete'', JStr ''true'')],
         local_disk, local_disk]
   \<and> length (setup_disks (snd (OBOptions_init (example_args None False 1 1))) False) = 1"
  using setup_disks_boot_then_scratch [of "snd (OBOptions_init (example_args None False 1 1))" True]
  by (simp add: OBOptions_init_def example_args_def setup_disks_def Let_def eval_nat_numeral)

text \<open>
  C7. The instance properties carry the resource-policy list and the scheduling block
  exactly when a policy is set (the source's test: the policy is a non-empty string),
  and the TIER\_1 block exactly when tier-1 networking is enabled; equal inputs give
  equal properties.
\<close>

theorem instance_properties_conditional_blocks:
  "(map_of (setup_instance_properties opts is_server net_int disks) ''resourcePolicies'' \<noteq> None
      \<longleftrightarrow> truthy (opts_policy opts))
   \<and> (map_of (setup_instance_properties opts is_server net_int disks) ''scheduling'' \<noteq> None
      \<longleftrightarrow> truthy (opts_policy opts))
   \<and> (truthy (opts_policy opts) \<longrightarrow>
        map_of (setup_instance_properties opts is_server net_int disks) ''resourcePolicies''
          = Some (JList [JStr (the (opts_policy opts))])
        \<and> map_of (setup_instance_properties opts is_server net_int disks) ''scheduling''
          = Some (JObj [(''onHostMaintenance'', JStr ''TERMINATE''),
                        (''automaticRestart'', JStr ''false'')]))
   \<and> (map_of (setup_instance_properties opts is_server net_int disks) ''networkPerformanceConfig'' \<noteq> None
      \<longleftrightarrow> opts_enable_tier1_networking opts)
   \<and> (opts_enable_tier1_networking opts \<longrightarrow>
        map_of (setup_instance_properties opts is_server net_int disks) ''networkPerformanceConfig''
          = Some (JObj [(''totalEgressBandwidthTier'', JStr ''TIER_1'')]))
   \<and> (\<forall>opts' is_server' net_int' disks'.
        opts' = opts \<and> is_server' = is_server \<and> net_int' = net_int \<and> disks' = disks \<longrightarrow>
        setup_instance_properties opts' is_server' net_int' disks'
          = setup_instance_properties opts is_server net_int disks)"
  unfolding setup_instance_properties_eq by simp

theorem instance_properties_conditional_blocks_witness:
  "truthy (opts_policy (snd (OBOptions_init (example_args None True 1 1))))
   \<and> opts_enable_tier1_networking (snd (OBOptions_init (example_args None True 1 1)))
   \<and> map_of (setup_instance_properties (snd (OBOptions_init (example_args None True 1 1))) True [] [])
        ''resourcePolicies'' = Some (JList [JStr ''compact''])
   \<and> map_of (setup_instance_properties (snd (OBOptions_init (example_args None True 1 1))) True [] [])
        ''scheduling'' = Some (JObj [(''onHostMaintenance'', JStr ''TERMINATE''),
                                     (''automaticRestart'', JStr ''false'')])
   \<and> map_of (setup_instance_properties (snd (OBOptions_init (example_args None True 1 1))) True [] [])
        ''networkPerformanceConfig'' = Some (JObj [(''totalEgressBandwidthTier'', JStr ''TIER_1'')])"
  using instance_properties_conditional_blocks
          [of "snd (OBOptions_init (example_args None True 1 1))" True "[]" "[]"]
  by (simp add: OBOptions_init_def example_args_def)

section \<open>Properties of the polling loop\<close>

lemma wait_results_append: "wait_results (xs @ ys) = wait_results xs @ wait_results ys"
  by (induction xs rule: wait_results.induct) simp_all

lemma wait_results_waits_on: "wait_results (waits_on opts operation ws) = ws"
  by (induction ws) (simp_all add: waits_on_def)

lemma waits_on_Cons:
  "ZoneWait (opts_project opts) (opts_zone opts) (op_name operation) w # waits_on opts operation ws
     = waits_on opts operation (w # ws)"
  by (simp add: waits_on_def)

lemma wait_loop_log:
  "wait_loop fuel compute operation opts log = (r, log') \<Longrightarrow>
   \<exists>ws. log' = log @ waits_on opts operation ws @ (if r = Polling then [] else [py_print ''done.''])
      \<and> length ws \<le> fuel
      \<and> (\<forall>w \<in> set (butlast ws). op_status w \<noteq> ''DONE'')
      \<and> (r = Polling \<longrightarrow> length ws = fuel \<and> (\<forall>w \<in> set ws. op_status w \<noteq> ''DONE''))
      \<and> (r \<noteq> Polling \<longrightarrow> ws \<noteq> [] \<and> op_status (last ws) = ''DONE''
            \<and> (case op_error (last ws) of
                  Some e \<Rightarrow> r = Raised (Exception e)
                | None \<Rightarrow> r = Return (last ws)))"
proof (induction fuel arbitrary: log)
  case 0
  then show ?case by (auto simp: waits_on_def intro: exI [of _ "[]"])
next
  case (Suc fuel)
  let ?result = "zoneWait compute log (opts_project opts) (opts_zone opts) (op_name operation)"
  let ?log1 = "log @ [ZoneWait (opts_project opts) (opts_zone opts) (op_name operation) ?result]"
  show ?case
  proof (cases "op_status ?result = ''DONE''")
    case True
    with Suc.prems show ?thesis
      by (intro exI [of _ "[?result]"]) (auto simp: waits_on_def Let_def split: option.splits)
  next
    case False
    with Suc.prems have "wait_loop fuel compute operation opts ?log1 = (r, log')"
      by (simp add: Let_def)
    from Suc.IH [OF this] obtain ws where ws:
      "log' = ?log1 @ waits_on opts operation ws @ (if r = Polling then [] else [py_print ''done.''])"
      "length ws \<le> fuel"
      "\<forall>w \<in> set (butlast ws). op_status w \<noteq> ''DONE''"
      "r = Polling \<longrightarrow> length ws = fuel \<and> (\<forall>w \<in> set ws. op_status w \<noteq> ''DONE'')"
      "r \<noteq> Polling \<longrightarrow> ws \<noteq> [] \<and> op_status (last ws) = ''DONE''
            \<and> (case op_error (last ws) of
                  Some e \<Rightarrow> r = Raised (Exception e)
                | None \<Rightarrow> r = Return (last ws))"
      by blast
    show ?thesis
    proof (intro exI [of _ "?result # ws"] conjI)
      show "log' = log @ waits_on opts operation (?result # ws) @ (if r = Polling then [] else [py_print ''done.''])"
        using ws(1) by (simp add: waits_on_def)
      show "length (?result # ws) \<le> Suc fuel" using ws(2) by simp
      show "\<forall>w \<in> set (butlast (?result # ws)). op_status w \<noteq> ''DONE''"
        using ws(3) False by (auto split: if_splits)
      show "r = Polling \<longrightarrow> length (?result # ws) = Suc fuel \<and> (\<forall>w \<in> set (?result # ws). op_status w \<noteq> ''DONE'')"
        using ws(4) False by auto
      show "r \<noteq> Polling \<longrightarrow> ?result # ws \<noteq> [] \<and> op_status (last (?result # ws)) = ''DONE''
            \<and> (case op_error (last (?result # ws)) of
                  Some e \<Rightarrow> r = Raised (Exception e)
                | None \<Rightarrow> r = Return (last (?result # ws)))"
        using ws(5) by (cases "ws = []") (auto split: option.splits)
    qed
  qed
qed

lemma wait_loop_never_done:
  "(\<forall>h p z n. op_status (zoneWait compute h p z n) \<noteq> ''DONE'') \<Longrightarrow>
   fst (wait_loop fuel compute operation opts log) = Polling"
  by (induction fuel arbitrary: log) (simp_all add: Let_def)

lemma wait_loop_more_fuel:
  "wait_loop fuel compute operation opts log = (r, log') \<Longrightarrow> r \<noteq> Polling \<Longrightarrow>
   wait_loop (fuel + k) compute operation opts log = (r, log')"
proof (induction fuel arbitrary: log)
  case 0
  then show ?case by simp
next
  case (Suc fuel)
  then show ?case by (auto simp: Let_def split: if_splits option.splits)
qed


lemma wait_results_new:
  "wait_results (drop (length log)
     ((log @ [e]) @ waits_on opts operation ws @ (if r = Polling then [] else [py_print ''done.''])))
   = wait_results [e] @ ws"
proof -
  let ?tail = "if r = Polling then [] else [py_print ''done.'']"
  have T: "wait_results ?tail = []"
    by (simp add: py_print_def)
  have D: "drop (length log) ((log @ [e]) @ waits_on opts operation ws @ ?tail)
             = [e] @ (waits_on opts operation ws @ ?tail)"
    by simp
  show ?thesis
    unfolding D wait_results_append wait_results_waits_on T by simp
qed

text \<open>
  C1. A call of \<open>wait_for_operation\<close> that ends (by returning or by raising) has issued
  at least one wait query, its last query was answered with status DONE, and no earlier
  one was. A call that is still polling when its fuel is used up has issued as many
  queries as it had fuel, none of them answered DONE: whatever the number of queries,
  the loop neither returns nor gives up while no answer is DONE, and with a provider
  that never answers DONE it polls for every fuel. Once a call has ended, more fuel
  does not change its result.
\<close>

theorem wait_for_operation_exits_only_on_done:
  assumes "wait_for_operation fuel compute operation opts log = (r, log')"
  shows "(r \<noteq> Polling \<longrightarrow>
            wait_results (drop (length log) log') \<noteq> []
            \<and> op_status (last (wait_results (drop (length log) log'))) = ''DONE''
            \<and> (\<forall>res \<in> set (butlast (wait_results (drop (length log) log'))). op_status res \<noteq> ''DONE''))
       \<and> (r = Polling \<longrightarrow>
            length (wait_results (drop (length log) log')) = fuel
            \<and> (\<forall>res \<in> set (wait_results (drop (length log) log')). op_status res \<noteq> ''DONE''))
       \<and> ((\<forall>h p z n. op_status (zoneWait compute h p z n) \<noteq> ''DONE'') \<longrightarrow> r = Polling)
       \<and> (r \<noteq> Polling \<longrightarrow>
            (\<forall>k. wait_for_operation (fuel + k) compute operation opts log = (r, log')))"
proof -
  let ?e = "Stdout (''Waiting for '' @ op_operationType operation @ '' operation to finish...'' @ '' '')"
  have loop: "wait_loop fuel compute operation opts (log @ [?e]) = (r, log')"
    using assms by (simp add: wait_for_operation_def)
  from wait_loop_log [OF loop] obtain ws where ws:
    "log' = (log @ [?e]) @ waits_on opts operation ws @ (if r = Polling then [] else [py_print ''done.''])"
    "r = Polling \<longrightarrow> length ws = fuel \<and> (\<forall>w \<in> set ws. op_status w \<noteq> ''DONE'')"
    "\<forall>w \<in> set (butlast ws). op_status w \<noteq> ''DONE''"
    "r \<noteq> Polling \<longrightarrow> ws \<noteq> [] \<and> op_status (last ws) = ''DONE''"
    by blast
  have res: "wait_results (drop (length log) log') = ws"
    unfolding ws(1) wait_results_new by simp
  have never: "(\<forall>h p z n. op_status (zoneWait compute h p z n) \<noteq> ''DONE'') \<longrightarrow> r = Polling"
    using wait_loop_never_done [of compute fuel operation opts "log @ [?e]"] loop by auto
  have more: "r \<noteq> Polling \<longrightarrow>
      (\<forall>k. wait_for_operation (fuel + k) compute operation opts log = (r, log'))"
    using wait_loop_more_fuel [OF loop] by (simp add: wait_for_operation_def)
  show ?thesis
    unfolding res using ws(2-4) never more by blast
qed

lemma example_wait_done:
  "wait_for_operation 5 (example_provider (Inr example_operation) ''DONE'' None) example_operation
     (snd (OBOptions_init (example_args None True 1 1))) []
   = (Return \<lparr> op_operationType = ''insert'', op_name = ''operation-1'', op_status = ''DONE'',
                op_error = None \<rparr>,
      [Stdout ''Waiting for insert operation to finish... '',
       ZoneWait ''proj'' ''us-central1-a'' ''operation-1''
         \<lparr> op_operationType = ''insert'', op_name = ''operation-1'', op_status = ''RUNNING'',
           op_error = None \<rparr>,
       ZoneWait ''proj'' ''us-central1-a'' ''operation-1''
         \<lparr> op_operationType = ''insert'', op_name = ''operation-1'', op_status = ''DONE'',
           op_error = None \<rparr>,
       py_print ''done.''])"
  by (simp add: wait_for_operation_def example_provider_def example_operation_def
        OBOptions_init_def example_args_def eval_nat_numeral Let_def)

lemma example_wait_failed:
  "wait_for_operation 5 (example_provider (Inr example_operation) ''DONE'' (Some (JStr ''boom'')))
     example_operation (snd (OBOptions_init (example_args None True 1 1))) []
   = (Raised (Exception (JStr ''boom'')),
      [Stdout ''Waiting for insert operation to finish... '',
       ZoneWait ''proj'' ''us-central1-a'' ''operation-1''
         \<lparr> op_operationType = ''insert'', op_name = ''operation-1'', op_status = ''RUNNING'',
           op_error = None \<rparr>,
       ZoneWait ''proj'' ''us-central1-a'' ''operation-1''
         \<lparr> op_operationType = ''insert'', op_name = ''operation-1'', op_status = ''DONE'',
           op_error = Some (JStr ''boom'') \<rparr>,
       py_print ''done.''])"
  by (simp add: wait_for_operation_def example_provider_def example_operation_def
        OBOptions_init_def example_args_def eval_nat_numeral Let_def)

lemma example_wait_running:
  "fst (wait_for_operation 3 (example_provider (Inr example_operation) ''RUNNING'' None)
     example_operation (snd (OBOptions_init (example_args None True 1 1))) []) = Polling"
  by (simp add: wait_for_operation_def example_provider_def example_operation_def
        OBOptions_init_def example_args_def eval_nat_numeral Let_def)


theorem wait_for_operation_exits_only_on_done_witness:
  "fst (wait_for_operation 5 (example_provider (Inr example_operation) ''DONE'' None) example_operation
          (snd (OBOptions_init (example_args None True 1 1))) []) \<noteq> Polling
   \<and> map op_status (wait_results (snd
         (wait_for_operation 5 (example_provider (Inr example_operation) ''DONE'' None) example_operation
            (snd (OBOptions_init (example_args None True 1 1))) []))) = [''RUNNING'', ''DONE'']
   \<and> wait_for_operation 12 (example_provider (Inr example_operation) ''DONE'' None) example_operation
          (snd (OBOptions_init (example_args None True 1 1))) []
       = wait_for_operation 5 (example_provider (Inr example_operation) ''DONE'' None) example_operation
          (snd (OBOptions_init (example_args None True 1 1))) []
   \<and> fst (wait_for_operation 3 (example_provider (Inr example_operation) ''RUNNING'' None)
          example_operation (snd (OBOptions_init (example_args None True 1 1))) []) = Polling
   \<and> length (wait_results (snd
         (wait_for_operation 3 (example_provider (Inr example_operation) ''RUNNING'' None)
            example_operation (snd (OBOptions_init (example_args None True 1 1))) []))) = 3"
proof -
  note finished = wait_for_operation_exits_only_on_done [OF example_wait_done]
  note running =
    wait_for_operation_exits_only_on_done
      [OF surjective_pairing,
       of 3 "example_provider (Inr example_operation) ''RUNNING'' None" example_operation
          "snd (OBOptions_init (example_args None True 1 1))" "[]"]
  have more: "\<forall>k. wait_for_operation (5 + k) (example_provider (Inr example_operation) ''DONE'' None)
       example_operation (snd (OBOptions_init (example_args None True 1 1))) []
     = wait_for_operation 5 (example_provider (Inr example_operation) ''DONE'' None)
       example_operation (snd (OBOptions_init (example_args None True 1 1))) []"
    using finished by (simp add: example_wait_done)
  have twelve: "wait_for_operation 12 (example_provider (Inr example_operation) ''DONE'' None)
       example_operation (snd (OBOptions_init (example_args None True 1 1))) []
     = wait_for_operation 5 (example_provider (Inr example_operation) ''DONE'' None)
       example_operation (snd (OBOptions_init (example_args None True 1 1))) []"
    using more [rule_format, of 7] by simp
  have len: "length (wait_results (snd
         (wait_for_operation 3 (example_provider (Inr example_operation) ''RUNNING'' None)
            example_operation (snd (OBOptions_init (example_args None True 1 1))) []))) = 3"
    using running example_wait_running by simp
  show ?thesis
    using twelve len example_wait_running by (simp add: example_wait_done py_print_def)
qed

lemma wait_results_Cons_wait:
  "wait_results (ZoneWait p z n w # es) = w # wait_results es"
  by simp

lemma wait_loop_answers:
  "wait_loop fuel compute operation opts log = (r, log') \<Longrightarrow>
   \<forall>i < length (wait_results (drop (length log) log')).
     wait_results (drop (length log) log') ! i
       = zoneWait compute (log @ waits_on opts operation (take i (wait_results (drop (length log) log'))))
           (opts_project opts) (opts_zone opts) (op_name operation)"
proof (induction fuel arbitrary: log)
  case 0
  then show ?case by simp
next
  case (Suc fuel)
  let ?result = "zoneWait compute log (opts_project opts) (opts_zone opts) (op_name operation)"
  let ?w = "ZoneWait (opts_project opts) (opts_zone opts) (op_name operation) ?result"
  let ?log1 = "log @ [?w]"
  show ?case
  proof (cases "op_status ?result = ''DONE''")
    case True
    with Suc.prems have "log' = log @ [?w, py_print ''done.'']"
      by (auto simp: Let_def split: option.splits)
    then have "wait_results (drop (length log) log') = [?result]"
      by (simp add: py_print_def)
    then show ?thesis by (simp add: waits_on_def)
  next
    case False
    with Suc.prems have loop: "wait_loop fuel compute operation opts ?log1 = (r, log')"
      by (simp add: Let_def)
    from wait_loop_log [OF loop] obtain rest where rest: "log' = ?log1 @ rest"
      by blast
    let ?ws = "wait_results rest"
    have d1: "drop (length ?log1) log' = rest" using rest by simp
    have d0: "wait_results (drop (length log) log') = ?result # ?ws"
      using rest by simp
    have ih: "\<forall>i < length ?ws.
        ?ws ! i = zoneWait compute (?log1 @ waits_on opts operation (take i ?ws))
                    (opts_project opts) (opts_zone opts) (op_name operation)"
      using Suc.IH [OF loop] unfolding d1 .
    show ?thesis
      unfolding d0
    proof (intro allI impI)
      fix i
      assume "i < length (?result # ?ws)"
      then show "(?result # ?ws) ! i
          = zoneWait compute (log @ waits_on opts operation (take i (?result # ?ws)))
              (opts_project opts) (opts_zone opts) (op_name operation)"
      proof (cases i)
        case 0
        then show ?thesis by (simp add: waits_on_def)
      next
        case (Suc j)
        with \<open>i < length (?result # ?ws)\<close> have "j < length ?ws" by simp
        with ih Suc show ?thesis by (simp add: waits_on_def)
      qed
    qed
  qed
qed

text \<open>
  C2. Every wait query that \<open>wait_for_operation\<close> logged was answered by the provider
  for the log as it stood, and the call does not stop querying while it has fuel and no
  answer is DONE. Whenever one of the logged answers has status DONE, that answer decides
  the result: with an error payload the call raises an exception that holds exactly that
  payload, without one it returns that operation. In particular, if the provider answers
  the first query with DONE, any call with fuel raises or returns accordingly.
\<close>

theorem wait_for_operation_done_outcome:
  assumes "wait_for_operation fuel compute operation opts log = (r, log')"
  shows "(\<forall>res \<in> set (wait_results (drop (length log) log')).
            op_status res = ''DONE'' \<longrightarrow>
              (case op_error res of
                 Some e \<Rightarrow> r = Raised (Exception e)
               | None \<Rightarrow> r = Return res))
       \<and> (\<forall>i < length (wait_results (drop (length log) log')).
            wait_results (drop (length log) log') ! i
              = zoneWait compute
                  (log @ Stdout (''Waiting for '' @ op_operationType operation
                                   @ '' operation to finish...'' @ '' '')
                       # waits_on opts operation (take i (wait_results (drop (length log) log'))))
                  (opts_project opts) (opts_zone opts) (op_name operation))
       \<and> ((\<forall>res \<in> set (wait_results (drop (length log) log')). op_status res \<noteq> ''DONE'')
            \<longrightarrow> r = Polling \<and> length (wait_results (drop (length log) log')) = fuel)
       \<and> (0 < fuel
            \<and> op_status (zoneWait compute
                  (log @ [Stdout (''Waiting for '' @ op_operationType operation
                                    @ '' operation to finish...'' @ '' '')])
                  (opts_project opts) (opts_zone opts) (op_name operation)) = ''DONE''
            \<longrightarrow> (case op_error (zoneWait compute
                        (log @ [Stdout (''Waiting for '' @ op_operationType operation
                                          @ '' operation to finish...'' @ '' '')])
                        (opts_project opts) (opts_zone opts) (op_name operation)) of
                   Some e \<Rightarrow> r = Raised (Exception e)
                 | None \<Rightarrow>
                     r = Return (zoneWait compute
                                   (log @ [Stdout (''Waiting for '' @ op_operationType operation
                                                     @ '' operation to finish...'' @ '' '')])
                                   (opts_project opts) (opts_zone opts) (op_name operation))))"
proof -
  let ?e = "Stdout (''Waiting for '' @ op_operationType operation @ '' operation to finish...'' @ '' '')"
  let ?first = "zoneWait compute (log @ [?e]) (opts_project opts) (opts_zone opts) (op_name operation)"
  have loop: "wait_loop fuel compute operation opts (log @ [?e]) = (r, log')"
    using assms by (simp add: wait_for_operation_def)
  from wait_loop_log [OF loop] obtain ws where ws:
    "log' = (log @ [?e]) @ waits_on opts operation ws @ (if r = Polling then [] else [py_print ''done.''])"
    "\<forall>w \<in> set (butlast ws). op_status w \<noteq> ''DONE''"
    "r = Polling \<longrightarrow> length ws = fuel \<and> (\<forall>w \<in> set ws. op_status w \<noteq> ''DONE'')"
    "r \<noteq> Polling \<longrightarrow> ws \<noteq> [] \<and> op_status (last ws) = ''DONE''
       \<and> (case op_error (last ws) of
             Some e \<Rightarrow> r = Raised (Exception e)
           | None \<Rightarrow> r = Return (last ws))"
    by blast
  have res: "wait_results (drop (length log) log') = ws"
    unfolding ws(1) wait_results_new by simp
  have res1: "wait_results (drop (length (log @ [?e])) log') = ws"
    unfolding ws(1) by (simp add: wait_results_append wait_results_waits_on py_print_def)
  have decided: "case op_error w of Some e \<Rightarrow> r = Raised (Exception e) | None \<Rightarrow> r = Return w"
    if "w \<in> set ws" "op_status w = ''DONE''" for w
  proof -
    from that ws(3) have ended: "r \<noteq> Polling" by blast
    with ws(4) have ne: "ws \<noteq> []" by simp
    from that ws(2) have "w \<notin> set (butlast ws)" by blast
    with that(1) ne have "w = last ws"
      by (metis append_butlast_last_id in_set_conv_decomp_last rotate1.simps(2) set_ConsD set_rotate1)
    with ws(4) ended show ?thesis by (auto split: option.splits)
  qed
  have answers: "\<forall>i < length ws.
      ws ! i = zoneWait compute (log @ ?e # waits_on opts operation (take i ws))
                 (opts_project opts) (opts_zone opts) (op_name operation)"
    using wait_loop_answers [OF loop] unfolding res1 by simp
  have keeps: "(\<forall>w \<in> set ws. op_status w \<noteq> ''DONE'') \<longrightarrow> r = Polling \<and> length ws = fuel"
    using ws(3,4) by (metis last_in_set)
  have first: "case op_error ?first of Some e \<Rightarrow> r = Raised (Exception e) | None \<Rightarrow> r = Return ?first"
    if "0 < fuel" "op_status ?first = ''DONE''"
  proof -
    have "ws \<noteq> []"
    proof
      assume "ws = []"
      with keeps that(1) show False by simp
    qed
    then have "0 < length ws" by simp
    with answers
    have "ws ! 0 = zoneWait compute (log @ ?e # waits_on opts operation (take 0 ws))
                     (opts_project opts) (opts_zone opts) (op_name operation)"
      by blast
    then have "ws ! 0 = ?first" by (simp add: waits_on_def)
    with \<open>ws \<noteq> []\<close> have "?first \<in> set ws" by (metis length_greater_0_conv nth_mem)
    from decided [OF this that(2)] show ?thesis .
  qed
  show ?thesis
    unfolding res using decided answers keeps first by blast
qed

theorem wait_for_operation_done_outcome_witness:
  "wait_for_operation 5 (example_provider (Inr example_operation) ''DONE'' (Some (JStr ''boom'')))
      example_operation (snd (OBOptions_init (example_args None True 1 1))) []
     = (Raised (Exception (JStr ''boom'')),
        [Stdout ''Waiting for insert operation to finish... '',
         ZoneWait ''proj'' ''us-central1-a'' ''operation-1''
           \<lparr> op_operationType = ''insert'', op_name = ''operation-1'', op_status = ''RUNNING'',
             op_error = None \<rparr>,
         ZoneWait ''proj'' ''us-central1-a'' ''operation-1''
           \<lparr> op_operationType = ''insert'', op_name = ''operation-1'', op_status = ''DONE'',
             op_error = Some (JStr ''boom'') \<rparr>,
         py_print ''done.''])
   \<and> \<lparr> op_operationType = ''insert'', op_name = ''operation-1'', op_status = ''DONE'',
         op_error = Some (JStr ''boom'') \<rparr>
       \<in> set (wait_results (snd
            (wait_for_operation 5 (example_provider (Inr example_operation) ''DONE'' (Some (JStr ''boom'')))
               example_operation (snd (OBOptions_init (example_args None True 1 1))) [])))
   \<and> fst (wait_for_operation 5 (example_provider (Inr example_operation) ''DONE'' None)
          example_operation (snd (OBOptions_init (example_args None True 1 1))) [])
       = Return \<lparr> op_operationType = ''insert'', op_name = ''operation-1'', op_status = ''DONE'',
                  op_error = None \<rparr>
   \<and> (0::nat) < 1
   \<and> op_status (zoneWait (prompt_provider (Some (JStr ''boom'')))
         [Stdout ''Waiting for insert operation to finish... '']
         ''proj'' ''us-central1-a'' ''operation-1'') = ''DONE''
   \<and> fst (wait_for_operation 1 (prompt_provider (Some (JStr ''boom''))) example_operation
          (snd (OBOptions_init (example_args None True 1 1))) [])
       = Raised (Exception (JStr ''boom''))
   \<and> fst (wait_for_operation 3 (example_provider (Inr example_operation) ''RUNNING'' None)
          example_operation (snd (OBOptions_init (example_args None True 1 1))) []) = Polling
   \<and> length (wait_results (snd
         (wait_for_operation 3 (example_provider (Inr example_operation) ''RUNNING'' None)
            example_operation (snd (OBOptions_init (example_args None True 1 1))) []))) = 3"
proof -
  note failed = wait_for_operation_done_outcome [OF example_wait_failed]
  note succeeded = wait_for_operation_done_outcome [OF example_wait_done]
  note running =
    wait_for_operation_done_outcome
      [where fuel = 3 and compute = "example_provider (Inr example_operation) ''RUNNING'' None"
         and operation = example_operation
         and opts = "snd (OBOptions_init (example_args None True 1 1))" and log = "[]",
       OF surjective_pairing]
  have member: "\<lparr> op_operationType = ''insert'', op_name = ''operation-1'', op_status = ''DONE'',
         op_error = Some (JStr ''boom'') \<rparr>
       \<in> set (wait_results (snd
            (wait_for_operation 5 (example_provider (Inr example_operation) ''DONE'' (Some (JStr ''boom'')))
               example_operation (snd (OBOptions_init (example_args None True 1 1))) [])))"
    by (simp add: example_wait_failed py_print_def)
  have ret: "fst (wait_for_operation 5 (example_provider (Inr example_operation) ''DONE'' None)
          example_operation (snd (OBOptions_init (example_args None True 1 1))) [])
       = Return \<lparr> op_operationType = ''insert'', op_name = ''operation-1'', op_status = ''DONE'',
                  op_error = None \<rparr>"
    using succeeded by (simp add: example_wait_done)
  have len: "length (wait_results (snd
         (wait_for_operation 3 (example_provider (Inr example_operation) ''RUNNING'' None)
            example_operation (snd (OBOptions_init (example_args None True 1 1))) []))) = 3"
  proof -
    have "\<forall>res \<in> set (wait_results (snd
         (wait_for_operation 3 (example_provider (Inr example_operation) ''RUNNING'' None)
            example_operation (snd (OBOptions_init (example_args None True 1 1))) []))).
          op_status res \<noteq> ''DONE''"
      by (simp add: wait_for_operation_def example_provider_def example_operation_def
            OBOptions_init_def example_args_def eval_nat_numeral Let_def)
    with running show ?thesis by simp
  qed
  note prompt =
    wait_for_operation_done_outcome
      [where fuel = 1 and compute = "prompt_provider (Some (JStr ''boom''))"
         and operation = example_operation
         and opts = "snd (OBOptions_init (example_args None True 1 1))" and log = "[]",
       OF surjective_pairing]
  have answer: "op_status (zoneWait (prompt_provider (Some (JStr ''boom'')))
         [Stdout ''Waiting for insert operation to finish... '']
         ''proj'' ''us-central1-a'' ''operation-1'') = ''DONE''"
    by (simp add: prompt_provider_def)
  have raised: "fst (wait_for_operation 1 (prompt_provider (Some (JStr ''boom''))) example_operation
          (snd (OBOptions_init (example_args None True 1 1))) [])
       = Raised (Exception (JStr ''boom''))"
    using prompt by (simp add: prompt_provider_def example_operation_def)
  have pos: "(0::nat) < 1" by simp
  show ?thesis
    using failed
    by (intro conjI example_wait_failed member ret pos answer raised example_wait_running len)
qed

section \<open>Properties of the role flows and the main program\<close>

lemma calls_append: "calls (xs @ ys) = calls xs @ calls ys"
  by (simp add: calls_def)

lemma calls_waits_on: "calls (waits_on opts operation ws) = waits_on opts operation ws"
  by (induction ws) (simp_all add: calls_def waits_on_def)

lemma calls_submission: "calls (submission opts ni role answer # es) = submission opts ni role answer # calls es"
  by (simp add: calls_def submission_def)

lemma calls_no_call: "\<not> is_call e \<Longrightarrow> calls (e # es) = calls es"
  by (simp add: calls_def)

lemma not_call_print: "\<not> is_call (py_print s)"
  by (simp add: py_print_def)

lemma wait_for_operation_log:
  assumes "wait_for_operation fuel compute operation opts log = (r, log')"
  shows "\<exists>extra ws. log' = log @ extra \<and> calls extra = waits_on opts operation ws
      \<and> (\<forall>w \<in> set (butlast ws). op_status w \<noteq> ''DONE'')
      \<and> (r = Polling \<longrightarrow> (\<forall>w \<in> set ws. op_status w \<noteq> ''DONE''))
      \<and> (r \<noteq> Polling \<longrightarrow> ws \<noteq> [] \<and> op_status (last ws) = ''DONE'')
      \<and> (\<forall>res. r = Return res \<longrightarrow> op_error (last ws) = None)
      \<and> (\<forall>c. r \<noteq> SysExit c)"
proof -
  let ?e = "Stdout (''Waiting for '' @ op_operationType operation @ '' operation to finish...'' @ '' '')"
  let ?tail = "if r = Polling then [] else [py_print ''done.'']"
  have loop: "wait_loop fuel compute operation opts (log @ [?e]) = (r, log')"
    using assms by (simp add: wait_for_operation_def)
  from wait_loop_log [OF loop] obtain ws where ws:
    "log' = (log @ [?e]) @ waits_on opts operation ws @ ?tail"
    "\<forall>w \<in> set (butlast ws). op_status w \<noteq> ''DONE''"
    "r = Polling \<longrightarrow> length ws = fuel \<and> (\<forall>w \<in> set ws. op_status w \<noteq> ''DONE'')"
    "r \<noteq> Polling \<longrightarrow> ws \<noteq> [] \<and> op_status (last ws) = ''DONE''
       \<and> (case op_error (last ws) of
             Some e \<Rightarrow> r = Raised (Exception e)
           | None \<Rightarrow> r = Return (last ws))"
    by blast
  let ?extra = "?e # waits_on opts operation ws @ ?tail"
  have "log' = log @ ?extra" using ws(1) by simp
  moreover have "calls ?extra = waits_on opts operation ws"
    by (simp add: calls_no_call calls_append calls_waits_on not_call_print) (simp add: calls_def py_print_def)
  moreover have "\<forall>res. r = Return res \<longrightarrow> op_error (last ws) = None"
    using ws(4) by (auto split: option.splits)
  moreover have "\<forall>c. r \<noteq> SysExit c"
    using ws(4) by (cases r) (auto split: option.splits)
  ultimately show ?thesis using ws(2,3,4) by blast
qed

lemma create_instances_log:
  assumes "create_instances fuel compute opts ni role log = (r, log')"
  shows "\<exists>answer extra ws. log' = log @ submission opts ni role answer # extra
      \<and> calls extra = polls opts answer ws
      \<and> (\<forall>content. answer = Inl (HttpError content) \<longrightarrow>
            (case error_message content of
               Inl exn \<Rightarrow> r = Raised exn \<and> extra = []
             | Inr msg \<Rightarrow> r = SysExit 1 \<and> extra = [py_print (''Error: '' @ py_str compute msg)]))
      \<and> (\<forall>operation. answer = Inr operation \<longrightarrow>
            (\<forall>w \<in> set (butlast ws). op_status w \<noteq> ''DONE'')
            \<and> (r = Polling \<longrightarrow> (\<forall>w \<in> set ws. op_status w \<noteq> ''DONE''))
            \<and> (r \<noteq> Polling \<longrightarrow> ws \<noteq> [] \<and> op_status (last ws) = ''DONE'')
            \<and> (r = Return () \<longrightarrow> op_error (last ws) = None)
            \<and> (\<forall>c. r \<noteq> SysExit c))"
proof -
  let ?body = "request_body opts ni role"
  let ?answer = "bulkInsert compute log (opts_project opts) (opts_zone opts) ?body"
  let ?log1 = "log @ [submission opts ni role ?answer]"
  show ?thesis
  proof (cases ?answer)
    case (Inl err)
    obtain content where err: "err = HttpError content" by (cases err)
    show ?thesis
    proof (cases "error_message content")
      case (Inl exn)
      with assms \<open>?answer = Inl err\<close> err
      have "r = Raised exn" "log' = log @ submission opts ni role (Inl (HttpError content)) # []"
        by (simp_all add: create_instances_def Let_def submission_def)
      with Inl show ?thesis
        by (intro exI [of _ "Inl (HttpError content)"] exI [of _ "[]"]) (simp add: calls_def)
    next
      case (Inr msg)
      with assms \<open>?answer = Inl err\<close> err
      have "r = SysExit 1"
        "log' = log @ submission opts ni role (Inl (HttpError content))
                  # [py_print (''Error: '' @ py_str compute msg)]"
        by (simp_all add: create_instances_def Let_def submission_def)
      with Inr show ?thesis
        by (intro exI [of _ "Inl (HttpError content)"]
              exI [of _ "[py_print (''Error: '' @ py_str compute msg)]"] exI [of _ "[]"])
           (simp add: calls_def py_print_def)
    qed
  next
    case (Inr operation)
    obtain r0 where w: "wait_for_operation fuel compute operation opts ?log1 = (r0, log')"
      and r: "r = map_outcome (\<lambda>_. ()) r0"
      using assms Inr
      by (cases "wait_for_operation fuel compute operation opts ?log1")
         (simp add: create_instances_def Let_def submission_def)
    from wait_for_operation_log [OF w] obtain extra ws where e:
      "log' = ?log1 @ extra" "calls extra = waits_on opts operation ws"
      "\<forall>w \<in> set (butlast ws). op_status w \<noteq> ''DONE''"
      "r0 = Polling \<longrightarrow> (\<forall>w \<in> set ws. op_status w \<noteq> ''DONE'')"
      "r0 \<noteq> Polling \<longrightarrow> ws \<noteq> [] \<and> op_status (last ws) = ''DONE''"
      "\<forall>res. r0 = Return res \<longrightarrow> op_error (last ws) = None"
      "\<forall>c. r0 \<noteq> SysExit c"
      by blast
    have "log' = log @ submission opts ni role (Inr operation) # extra"
      using e(1) Inr by simp
    moreover have "calls extra = polls opts (Inr operation) ws"
      using e(2) by simp
    moreover have "r = Polling \<longleftrightarrow> r0 = Polling" "\<forall>c. r \<noteq> SysExit c"
      "r = Return () \<longrightarrow> (\<exists>res. r0 = Return res)"
      using r e(7) by (cases r0; simp)+
    ultimately show ?thesis
      using e(3-6)
      by (intro exI [of _ "Inr operation"] exI [of _ extra] exI [of _ ws]) auto
  qed
qed

lemma verify_all_log:
  "verify_all compute checks log = (ok, log') \<Longrightarrow> \<exists>vs. log' = log @ vs \<and> calls vs = []"
proof (induction checks arbitrary: log)
  case Nil
  then show ?case by (simp add: calls_def)
next
  case (Cons c checks)
  obtain kind ids where c: "c = (kind, ids)" by (cases c)
  let ?log1 = "log @ [VerifyCall kind ids (verify_exists compute log kind ids)]"
  show ?case
  proof (cases "verify_exists compute log kind ids")
    case False
    with Cons.prems c have "log' = ?log1" by (simp add: verify_def Let_def)
    then show ?thesis by (intro exI [of _ "[VerifyCall kind ids (verify_exists compute log kind ids)]"]) (simp add: calls_def)
  next
    case True
    with Cons.prems c have "verify_all compute checks ?log1 = (ok, log')"
      by (simp add: verify_def Let_def)
    from Cons.IH [OF this] obtain vs where "log' = ?log1 @ vs" "calls vs = []" by blast
    then show ?thesis
      by (intro exI [of _ "VerifyCall kind ids (verify_exists compute log kind ids) # vs"])
         (simp add: calls_def)
  qed
qed

lemma provision_cases:
  assumes "provision fuel compute args opts ni log0 = (r, log)"
  shows "(\<not> 0 < args_num_servers args \<and> \<not> 0 < args_num_clients args \<and> log = log0 \<and> r = Return ())
       \<or> (0 < args_num_servers args \<and> create_instances fuel compute opts ni SERVER log0 = (r, log)
            \<and> (r \<noteq> Return () \<or> \<not> 0 < args_num_clients args))
       \<or> (\<not> 0 < args_num_servers args \<and> 0 < args_num_clients args
            \<and> create_instances fuel compute opts ni CLIENT log0 = (r, log))
       \<or> (0 < args_num_servers args \<and> 0 < args_num_clients args
            \<and> (\<exists>log1. create_instances fuel compute opts ni SERVER log0 = (Return (), log1)
                   \<and> create_instances fuel compute opts ni CLIENT log1 = (r, log)))"
proof (cases "0 < args_num_servers args")
  case False
  with assms show ?thesis by (auto simp: provision_def split: if_splits)
next
  case True
  obtain r1 log1 where s: "create_instances fuel compute opts ni SERVER log0 = (r1, log1)"
    by (cases "create_instances fuel compute opts ni SERVER log0")
  show ?thesis
  proof (cases r1)
    case (Return u)
    with assms True s show ?thesis by (auto simp: provision_def split: if_splits)
  qed (use assms True s in \<open>auto simp: provision_def\<close>)
qed

lemma main_cases:
  assumes "main fuel compute args = (r, oo, log)"
  shows "(r = SysExit 1 \<and> calls log = [])
       \<or> (\<exists>log0. calls log0 = [] \<and> oo = Some (snd (OBOptions_init args))
             \<and> provision fuel compute args (snd (OBOptions_init args))
                  (setup_network_interface (snd (OBOptions_init args))) log0 = (r, log))"
proof (cases "args_num_servers args + args_num_clients args < 1")
  case True
  with assms show ?thesis by (auto simp: main_def calls_def py_print_def)
next
  case False
  obtain ok vlog where v: "verify_inputs compute args [] = (ok, vlog)"
    by (cases "verify_inputs compute args []")
  then obtain vs where vs: "vlog = [] @ vs" "calls vs = []"
    unfolding verify_inputs_def using verify_all_log by blast
  obtain printed opts where o: "OBOptions_init args = (printed, opts)"
    by (cases "OBOptions_init args")
  have pr: "calls (map py_print printed) = []"
    by (induction printed) (simp_all add: calls_def py_print_def)
  show ?thesis
  proof (cases ok)
    case False
    with assms \<open>\<not> args_num_servers args + args_num_clients args < 1\<close> v vs
    show ?thesis by (simp add: main_def)
  next
    case True
    let ?log1 = "vlog @ map py_print printed"
    let ?log2 = "?log1 @ [DiscoveryBuild (credentials compute ?log1)]"
    have c2: "calls ?log2 = []" using vs pr by (simp add: calls_append) (simp add: calls_def)
    show ?thesis
    proof (cases "credentials compute ?log1")
      case False
      with assms \<open>\<not> args_num_servers args + args_num_clients args < 1\<close> v True o
      have "r = SysExit 1" "log = ?log2 @ [py_print credentials_message]"
        by (simp_all add: main_def Let_def)
      moreover have "calls [py_print credentials_message] = []"
        by (simp add: calls_def py_print_def)
      ultimately show ?thesis using c2 by (simp only: calls_append) simp
    next
      case built: True
      obtain r' log' where p: "provision fuel compute args opts (setup_network_interface opts) ?log2 = (r', log')"
        by (cases "provision fuel compute args opts (setup_network_interface opts) ?log2")
      with assms \<open>\<not> args_num_servers args + args_num_clients args < 1\<close> v True o built
      have "r = r'" "log = log'" "oo = Some opts"
        by (simp_all add: main_def Let_def)
      with p o c2 show ?thesis by (intro disjI2 exI [of _ ?log2]) simp
    qed
  qed
qed

lemma in_calls: "e \<in> set log \<Longrightarrow> is_call e \<Longrightarrow> e \<in> set (calls log)"
  by (simp add: calls_def)

lemma submit_not_in_polls: "BulkInsert p z body a \<notin> set (polls opts answer ws)"
  by (cases answer) (auto simp: waits_on_def)

lemma submit_not_in_extra:
  "calls extra = polls opts answer ws \<Longrightarrow> BulkInsert p z body a \<notin> set extra"
  using in_calls [of "BulkInsert p z body a" extra] submit_not_in_polls [of p z body a opts answer ws]
  by auto

lemma submit_not_in_quiet: "calls log0 = [] \<Longrightarrow> BulkInsert p z body a \<notin> set log0"
  using in_calls [of "BulkInsert p z body a" log0] by auto

lemma flow_rejection:
  assumes ci: "create_instances fuel compute opts ni role log0 = (r, log)"
    and fresh: "BulkInsert p z body (Inl (HttpError content)) \<notin> set log0"
    and split: "log = pre @ BulkInsert p z body (Inl (HttpError content)) # post"
  shows "pre = log0 \<and> calls post = []
       \<and> (case error_message content of
             Inl exn \<Rightarrow> r = Raised exn \<and> post = []
           | Inr msg \<Rightarrow> r = SysExit 1 \<and> post = [py_print (''Error: '' @ py_str compute msg)])"
proof -
  let ?E = "BulkInsert p z body (Inl (HttpError content))"
  from create_instances_log [OF ci] obtain answer extra ws where f:
    "log = log0 @ submission opts ni role answer # extra"
    "calls extra = polls opts answer ws"
    "\<forall>content. answer = Inl (HttpError content) \<longrightarrow>
       (case error_message content of
          Inl exn \<Rightarrow> r = Raised exn \<and> extra = []
        | Inr msg \<Rightarrow> r = SysExit 1 \<and> extra = [py_print (''Error: '' @ py_str compute msg)])"
    by blast
  have notextra: "?E \<notin> set extra" using submit_not_in_extra [OF f(2)] .
  have "?E \<in> set log" using split by simp
  then have E: "submission opts ni role answer = ?E"
    using f(1) fresh notextra by auto
  then have eq: "log0 @ ?E # extra = pre @ ?E # post" using f(1) split by simp
  have pp: "log0 = pre \<and> extra = post"
    using append_Cons_eq_iff [OF fresh notextra, of pre post] eq by simp
  have a: "answer = Inl (HttpError content)" using E by (simp add: submission_def)
  have "calls post = []" using pp f(2) a by simp
  then show ?thesis using pp f(3) a by (auto split: sum.splits)
qed

lemma flow_returned_fresh:
  assumes ci: "create_instances fuel compute opts ni role log0 = (Return (), log1)"
    and fresh: "BulkInsert p z body (Inl (HttpError content)) \<notin> set log0"
  shows "BulkInsert p z body (Inl (HttpError content)) \<notin> set log1"
proof
  let ?E = "BulkInsert p z body (Inl (HttpError content))"
  assume "?E \<in> set log1"
  then obtain pre post where "log1 = pre @ ?E # post" by (auto simp: in_set_conv_decomp)
  from flow_rejection [OF ci fresh this] show False by (auto split: sum.splits)
qed

text \<open>
  C5, amended. Whenever the log of a run holds a submission that the provider rejected
  with an \<open>HttpError\<close>, the program ends there without finishing (it exits or an
  exception ends it) and no provider request follows the rejection. If the body of the
  error is a JSON object with an \<open>error\<close> object, the only event after the rejection is
  the line \<open>Error: \<close> followed by the text of its \<open>message\<close> member (the message
  itself when it is a string), and the program exits with status 1. In particular a
  rejected server submission is never followed by a client submission.
\<close>

theorem rejected_submission_halts:
  assumes run: "main fuel compute args = (r, oo, log)"
    and split: "log = pre @ BulkInsert p z body (Inl (HttpError content)) # post"
  shows "calls post = []
       \<and> (r = SysExit 1 \<or> (\<exists>exn. r = Raised exn))
       \<and> (\<forall>d e m. content = Parsed (JObj d) \<and> map_of d ''error'' = Some (JObj e)
                   \<and> map_of e ''message'' = Some (JStr m) \<longrightarrow>
             r = SysExit 1 \<and> post = [py_print (''Error: '' @ m)])
       \<and> (\<forall>d e. content = Parsed (JObj d) \<and> map_of d ''error'' = Some (JObj e) \<longrightarrow>
             r = SysExit 1
             \<and> post = [py_print (''Error: '' @ py_str compute
                                    (case map_of e ''message'' of None \<Rightarrow> JNull | Some v \<Rightarrow> v))])
       \<and> (\<forall>d e. content = Parsed (JObj d) \<and> map_of d ''error'' = Some (JObj e)
                 \<and> map_of e ''message'' = None \<longrightarrow>
             post = [py_print ''Error: None''])"
proof -
  let ?E = "BulkInsert p z body (Inl (HttpError content))"
  let ?opts = "snd (OBOptions_init args)"
  let ?ni = "setup_network_interface ?opts"
  have inlog: "?E \<in> set log" using split by simp
  have key: "calls post = []
       \<and> (case error_message content of
             Inl exn \<Rightarrow> r = Raised exn \<and> post = []
           | Inr msg \<Rightarrow> r = SysExit 1 \<and> post = [py_print (''Error: '' @ py_str compute msg)])"
  proof -
    from main_cases [OF run] inlog submit_not_in_quiet [of log p z body]
    obtain log0 where q: "calls log0 = []"
      and pv: "provision fuel compute args ?opts ?ni log0 = (r, log)"
      by blast
    have fresh: "?E \<notin> set log0" using q by (rule submit_not_in_quiet)
    from provision_cases [OF pv]
    consider (none) "log = log0"
      | (one) role where "create_instances fuel compute ?opts ?ni role log0 = (r, log)"
      | (two) log1 where "create_instances fuel compute ?opts ?ni SERVER log0 = (Return (), log1)"
          "create_instances fuel compute ?opts ?ni CLIENT log1 = (r, log)"
      by blast
    then show ?thesis
    proof cases
      case none
      with fresh inlog show ?thesis by simp
    next
      case one
      from flow_rejection [OF one fresh split] show ?thesis by simp
    next
      case two
      from flow_rejection [OF two(2) flow_returned_fresh [OF two(1) fresh] split]
      show ?thesis by simp
    qed
  qed
  have halts: "r = SysExit 1 \<or> (\<exists>exn. r = Raised exn)"
    using key by (cases "error_message content") simp_all
  have structured: "r = SysExit 1
      \<and> post = [py_print (''Error: '' @ py_str compute
                               (case map_of e ''message'' of None \<Rightarrow> JNull | Some v \<Rightarrow> v))]"
    if "content = Parsed (JObj d)" "map_of d ''error'' = Some (JObj e)" for d e
  proof -
    from that have "error_message content
        = Inr (case map_of e ''message'' of None \<Rightarrow> JNull | Some v \<Rightarrow> v)"
      by (simp add: error_message_def)
    with key show ?thesis by simp
  qed
  have message: "r = SysExit 1 \<and> post = [py_print (''Error: '' @ m)]"
    if "content = Parsed (JObj d)" "map_of d ''error'' = Some (JObj e)"
       "map_of e ''message'' = Some (JStr m)" for d e m
    using structured [OF that(1,2)] that(3) by (simp add: py_str_def)
  have missing: "post = [py_print ''Error: None'']"
    if "content = Parsed (JObj d)" "map_of d ''error'' = Some (JObj e)"
       "map_of e ''message'' = None" for d e
    using structured [OF that(1,2)] that(3) by (simp add: py_str_def)
  from key halts structured message missing show ?thesis by blast
qed

lemma example_opts:
  "OBOptions_init (example_args None True s c) =
     ([nic_warning],
      \<lparr> opts_project = ''proj'', opts_region = ''us-central1'', opts_zone = ''us-central1-a'',
        opts_image = ''global/images/orangefs'',
        opts_scopes = [''https://www.googleapis.com/auth/compute''],
        opts_subnet = None, opts_policy = Some ''compact'', opts_nic_type = Some ''GVNIC'',
        opts_enable_tier1_networking = True,
        opts_server = \<lparr> server_count = s, server_type = ''n2-standard-8'',
                        server_prefix = ''srv'', server_num_ssd_per = 2 \<rparr>,
        opts_client = \<lparr> client_count = c, client_type = ''n2-standard-4'',
                        client_prefix = ''cli'' \<rparr> \<rparr>)"
  by (simp add: OBOptions_init_def example_args_def)

lemma example_counts:
  "args_num_servers (example_args nic tier1 s c) = s"
  "args_num_clients (example_args nic tier1 s c) = c"
  by (simp_all add: example_args_def)

lemma example_provider_answers:
  "credentials (example_provider answer final err) log = True"
  "bulkInsert (example_provider answer final err) log p z body = answer"
  "str_value (example_provider answer final err) v = ''?''"
  by (simp_all add: example_provider_def)

lemma example_verify:
  "verify_inputs (example_provider answer final err) (example_args nic tier1 s c) []
   = (True,
      [VerifyCall ''project'' [''proj''] True,
       VerifyCall ''region'' [''proj'', ''us-central1''] True,
       VerifyCall ''zone'' [''proj'', ''us-central1'', ''us-central1-a''] True,
       VerifyCall ''image'' [''proj'', ''orangefs''] True,
       VerifyCall ''machine_type'' [''proj'', ''us-central1-a'', ''n2-standard-8''] True,
       VerifyCall ''machine_type'' [''proj'', ''us-central1-a'', ''n2-standard-4''] True,
       VerifyCall ''policy'' [''proj'', ''us-central1'', ''compact''] True])"
  by (simp add: verify_inputs_def verify_def example_provider_def example_args_def)

lemma example_preamble:
  "1 \<le> s + c \<Longrightarrow>
   main fuel (example_provider answer final err) (example_args None True s c)
   = (case provision fuel (example_provider answer final err) (example_args None True s c)
             (snd (OBOptions_init (example_args None True s c)))
             (setup_network_interface (snd (OBOptions_init (example_args None True s c)))) example_preamble_log
      of (r, log) \<Rightarrow> (r, Some (snd (OBOptions_init (example_args None True s c))), log))"
  by (simp add: main_def example_counts example_verify example_opts example_provider_answers
        example_preamble_log_def)

lemma example_flow_rejected:
  "create_instances fuel (example_provider (Inl quota_exceeded) final err) opts ni role log
   = (SysExit 1, log @ [submission opts ni role (Inl quota_exceeded),
                        py_print ''Error: quota exceeded''])"
  by (simp add: create_instances_def example_provider_answers quota_exceeded_def
        error_message_def py_str_def submission_def)

lemma example_main_rejected:
  "main 5 (example_provider (Inl quota_exceeded) ''DONE'' None) (example_args None True 1 1)
   = (SysExit 1, Some (snd (OBOptions_init (example_args None True 1 1))),
      example_preamble_log @ [submission (snd (OBOptions_init (example_args None True 1 1)))
                  (setup_network_interface (snd (OBOptions_init (example_args None True 1 1))))
                  SERVER (Inl quota_exceeded),
                py_print ''Error: quota exceeded''])"
  by (simp add: example_preamble provision_def example_counts example_flow_rejected)

text \<open>
  C8. With fewer than one instance requested in total the program prints the error line
  and exits with status 1. The log holds that line only, so no helper of \<open>utils\<close> was
  called and nothing was submitted or polled, and \<open>ob_opts\<close> was never assigned.
\<close>

theorem zero_instances_is_an_error:
  "args_num_servers args + args_num_clients args < 1 \<Longrightarrow>
   main fuel compute args
     = (SysExit 1, None, [py_print ''Error: Must specify at least one server or client.''])"
  by (simp add: main_def)

theorem zero_instances_is_an_error_witness:
  "args_num_servers (example_args None True 0 0) + args_num_clients (example_args None True 0 0) < 1
   \<and> main 5 (example_provider (Inr example_operation) ''DONE'' None) (example_args None True 0 0)
     = (SysExit 1, None, [py_print ''Error: Must specify at least one server or client.''])
   \<and> main 5 (example_provider (Inr example_operation) ''DONE'' None) (example_args None True (- 2) 1)
     = (SysExit 1, None, [py_print ''Error: Must specify at least one server or client.''])"
  using zero_instances_is_an_error
          [of "example_args None True 0 0" 5 "example_provider (Inr example_operation) ''DONE'' None"]
    zero_instances_is_an_error
          [of "example_args None True (- 2) 1" 5 "example_provider (Inr example_operation) ''DONE'' None"]
  by (simp add: example_counts)

lemma flow_calls:
  assumes "create_instances fuel compute opts ni role log0 = (r, log)"
  shows "\<exists>answer ws. calls log = calls log0 @ submission opts ni role answer # polls opts answer ws
      \<and> (r = Return () \<longrightarrow>
            (\<exists>operation. answer = Inr operation) \<and> ws \<noteq> [] \<and> op_status (last ws) = ''DONE''
            \<and> op_error (last ws) = None \<and> (\<forall>w \<in> set (butlast ws). op_status w \<noteq> ''DONE''))"
proof -
  from create_instances_log [OF assms] obtain answer extra ws where f:
    "log = log0 @ submission opts ni role answer # extra"
    "calls extra = polls opts answer ws"
    "\<forall>content. answer = Inl (HttpError content) \<longrightarrow>
       (case error_message content of
          Inl exn \<Rightarrow> r = Raised exn \<and> extra = []
        | Inr msg \<Rightarrow> r = SysExit 1 \<and> extra = [py_print (''Error: '' @ py_str compute msg)])"
    "\<forall>operation. answer = Inr operation \<longrightarrow>
            (\<forall>w \<in> set (butlast ws). op_status w \<noteq> ''DONE'')
            \<and> (r = Polling \<longrightarrow> (\<forall>w \<in> set ws. op_status w \<noteq> ''DONE''))
            \<and> (r \<noteq> Polling \<longrightarrow> ws \<noteq> [] \<and> op_status (last ws) = ''DONE'')
            \<and> (r = Return () \<longrightarrow> op_error (last ws) = None)
            \<and> (\<forall>c. r \<noteq> SysExit c)"
    by blast
  have c: "calls log = calls log0 @ submission opts ni role answer # polls opts answer ws"
    using f(1,2) by (simp add: calls_append calls_submission)
  have "r = Return () \<longrightarrow> (\<exists>operation. answer = Inr operation)"
  proof (cases answer)
    case (Inl e)
    then obtain content where "answer = Inl (HttpError content)" by (cases e) simp
    with f(3) show ?thesis by (auto split: sum.splits)
  qed simp
  with c f(4) show ?thesis by (intro exI [of _ answer] exI [of _ ws]) auto
qed

text \<open>
  C9. When both roles are requested, the provider requests of a run are: none (the
  program ended before the flows); or the server submission followed by wait queries on
  the server operation only, and then the program has not finished successfully; or the
  server submission, wait queries on the server operation of which the last, and only
  the last, was answered DONE (without an error), then the client submission followed by
  wait queries on the client operation only. So the client request is submitted only
  after the server operation was seen DONE, and the requests of the two roles never
  interleave. After a server operation that ended DONE with an error no client request
  is submitted at all.
\<close>

theorem roles_run_in_sequence:
  assumes run: "main fuel compute args = (r, oo, log)"
    and both: "0 < args_num_servers args" "0 < args_num_clients args"
  shows "calls log = []
       \<or> (\<exists>answer1 ws1.
            calls log = submission (snd (OBOptions_init args))
                          (setup_network_interface (snd (OBOptions_init args))) SERVER answer1
                        # polls (snd (OBOptions_init args)) answer1 ws1
            \<and> r \<noteq> Return ())
       \<or> (\<exists>operation1 ws1 answer2 ws2.
            calls log = submission (snd (OBOptions_init args))
                          (setup_network_interface (snd (OBOptions_init args))) SERVER (Inr operation1)
                        # waits_on (snd (OBOptions_init args)) operation1 ws1
                        @ submission (snd (OBOptions_init args))
                            (setup_network_interface (snd (OBOptions_init args))) CLIENT answer2
                        # polls (snd (OBOptions_init args)) answer2 ws2
            \<and> ws1 \<noteq> [] \<and> op_status (last ws1) = ''DONE'' \<and> op_error (last ws1) = None
            \<and> (\<forall>w \<in> set (butlast ws1). op_status w \<noteq> ''DONE''))"
proof -
  let ?opts = "snd (OBOptions_init args)"
  let ?ni = "setup_network_interface ?opts"
  from main_cases [OF run] consider "calls log = []"
    | log0 where "calls log0 = []" "provision fuel compute args ?opts ?ni log0 = (r, log)"
    by blast
  then show ?thesis
  proof cases
    case 1
    then show ?thesis by simp
  next
    case 2
    from provision_cases [OF 2(2)] both
    consider (server) "create_instances fuel compute ?opts ?ni SERVER log0 = (r, log)" "r \<noteq> Return ()"
      | (two) log1 where "create_instances fuel compute ?opts ?ni SERVER log0 = (Return (), log1)"
          "create_instances fuel compute ?opts ?ni CLIENT log1 = (r, log)"
      by auto
    then show ?thesis
    proof cases
      case server
      from flow_calls [OF server(1)] 2(1) server(2) show ?thesis by auto
    next
      case two
      from flow_calls [OF two(1)] 2(1) obtain operation1 ws1 where s:
        "calls log1 = submission ?opts ?ni SERVER (Inr operation1) # waits_on ?opts operation1 ws1"
        "ws1 \<noteq> []" "op_status (last ws1) = ''DONE''" "op_error (last ws1) = None"
        "\<forall>w \<in> set (butlast ws1). op_status w \<noteq> ''DONE''"
        by auto
      from flow_calls [OF two(2)] obtain answer2 ws2 where
        "calls log = calls log1 @ submission ?opts ?ni CLIENT answer2 # polls ?opts answer2 ws2"
        by blast
      with s show ?thesis by (intro disjI2) force
    qed
  qed
qed

lemma request_body_count:
  "map_of (request_body opts ni role) ''count''
     = Some (JInt (if role = SERVER then server_count (opts_server opts)
                   else client_count (opts_client opts)))"
  by (simp add: request_body_def Let_def)

lemma init_counts:
  "server_count (opts_server (snd (OBOptions_init args))) = args_num_servers args"
  "client_count (opts_client (snd (OBOptions_init args))) = args_num_clients args"
  by (simp_all add: OBOptions_init_def Let_def)

lemma single_flow:
  assumes run: "main fuel compute args = (r, oo, log)"
    and only: "\<And>opts ni log0. provision fuel compute args opts ni log0
                 = create_instances fuel compute opts ni role log0"
  shows "(calls log = []
          \<or> (\<exists>answer ws.
                calls log = submission (snd (OBOptions_init args))
                              (setup_network_interface (snd (OBOptions_init args))) role answer
                            # polls (snd (OBOptions_init args)) answer ws))
       \<and> (\<forall>p z body answer. BulkInsert p z body answer \<in> set log \<longrightarrow>
             body = request_body (snd (OBOptions_init args))
                      (setup_network_interface (snd (OBOptions_init args))) role)"
proof -
  let ?opts = "snd (OBOptions_init args)"
  let ?ni = "setup_network_interface ?opts"
  from main_cases [OF run] consider "calls log = []"
    | log0 where "calls log0 = []" "create_instances fuel compute ?opts ?ni role log0 = (r, log)"
    using only by auto
  then show ?thesis
  proof cases
    case 1
    then show ?thesis using submit_not_in_quiet [of log] by simp
  next
    case 2
    from flow_calls [OF 2(2)] 2(1) obtain answer ws where
      c: "calls log = submission ?opts ?ni role answer # polls ?opts answer ws"
      by auto
    have "body = request_body ?opts ?ni role" if "BulkInsert p z body a \<in> set log" for p z body a
    proof -
      from that have "BulkInsert p z body a \<in> set (calls log)" by (simp add: in_calls)
      with c submit_not_in_polls [of p z body a ?opts answer ws]
      show ?thesis by (simp add: submission_def)
    qed
    with c show ?thesis by blast
  qed
qed

text \<open>
  C10. When the total is at least one and the server count is not positive, the two
  final statements of the main program amount to the client flow alone: the only
  submission of the run, if any, is the client request (whose count is the positive
  client count), followed by wait queries on its operation only. The same holds with
  the roles exchanged. \<open>setup_disks\<close> and \<open>setup_instance_properties\<close> are called from
  \<open>create_instances\<close> only, so nothing is built for the skipped role.
\<close>

theorem non_positive_role_is_skipped:
  assumes run: "main fuel compute args = (r, oo, log)"
    and total: "1 \<le> args_num_servers args + args_num_clients args"
  shows "(args_num_servers args \<le> 0 \<longrightarrow>
            (\<forall>opts ni log0. provision fuel compute args opts ni log0
                              = create_instances fuel compute opts ni CLIENT log0)
            \<and> (calls log = []
                \<or> (\<exists>answer ws.
                      calls log = submission (snd (OBOptions_init args))
                                    (setup_network_interface (snd (OBOptions_init args))) CLIENT answer
                                  # polls (snd (OBOptions_init args)) answer ws))
            \<and> (\<forall>p z body answer. BulkInsert p z body answer \<in> set log \<longrightarrow>
                  body = request_body (snd (OBOptions_init args))
                           (setup_network_interface (snd (OBOptions_init args))) CLIENT
                  \<and> map_of body ''count'' = Some (JInt (args_num_clients args))
                  \<and> 0 < args_num_clients args))
       \<and> (args_num_clients args \<le> 0 \<longrightarrow>
            (\<forall>opts ni log0. provision fuel compute args opts ni log0
                              = create_instances fuel compute opts ni SERVER log0)
            \<and> (calls log = []
                \<or> (\<exists>answer ws.
                      calls log = submission (snd (OBOptions_init args))
                                    (setup_network_interface (snd (OBOptions_init args))) SERVER answer
                                  # polls (snd (OBOptions_init args)) answer ws))
            \<and> (\<forall>p z body answer. BulkInsert p z body answer \<in> set log \<longrightarrow>
                  body = request_body (snd (OBOptions_init args))
                           (setup_network_interface (snd (OBOptions_init args))) SERVER
                  \<and> map_of body ''count'' = Some (JInt (args_num_servers args))
                  \<and> 0 < args_num_servers args))"
proof (intro conjI impI)
  assume s: "args_num_servers args \<le> 0"
  then have c: "0 < args_num_clients args" using total by simp
  have only: "provision fuel compute args opts ni log0
                = create_instances fuel compute opts ni CLIENT log0" for opts ni log0
    using s c by (simp add: provision_def)
  then show "\<forall>opts ni log0. provision fuel compute args opts ni log0
                              = create_instances fuel compute opts ni CLIENT log0"
    by blast
  from single_flow [OF run only]
  show "calls log = []
        \<or> (\<exists>answer ws.
              calls log = submission (snd (OBOptions_init args))
                            (setup_network_interface (snd (OBOptions_init args))) CLIENT answer
                          # polls (snd (OBOptions_init args)) answer ws)"
    by blast
  have bodies: "\<forall>p z body answer. BulkInsert p z body answer \<in> set log \<longrightarrow>
          body = request_body (snd (OBOptions_init args))
                   (setup_network_interface (snd (OBOptions_init args))) CLIENT"
    using single_flow [OF run only] by blast
  have count: "map_of (request_body (snd (OBOptions_init args))
                   (setup_network_interface (snd (OBOptions_init args))) CLIENT) ''count''
                 = Some (JInt (args_num_clients args))"
    by (simp add: request_body_count init_counts)
  show "\<forall>p z body answer. BulkInsert p z body answer \<in> set log \<longrightarrow>
          body = request_body (snd (OBOptions_init args))
                   (setup_network_interface (snd (OBOptions_init args))) CLIENT
          \<and> map_of body ''count'' = Some (JInt (args_num_clients args))
          \<and> 0 < args_num_clients args"
    using bodies count c by metis
next
  assume c: "args_num_clients args \<le> 0"
  then have s: "0 < args_num_servers args" using total by simp
  have only: "provision fuel compute args opts ni log0
                = create_instances fuel compute opts ni SERVER log0" for opts ni log0
  proof (cases "create_instances fuel compute opts ni SERVER log0")
    case (Pair r1 log1)
    then show ?thesis using s c by (cases r1) (simp_all add: provision_def)
  qed
  then show "\<forall>opts ni log0. provision fuel compute args opts ni log0
                              = create_instances fuel compute opts ni SERVER log0"
    by blast
  from single_flow [OF run only]
  show "calls log = []
        \<or> (\<exists>answer ws.
              calls log = submission (snd (OBOptions_init args))
                            (setup_network_interface (snd (OBOptions_init args))) SERVER answer
                          # polls (snd (OBOptions_init args)) answer ws)"
    by blast
  have bodies: "\<forall>p z body answer. BulkInsert p z body answer \<in> set log \<longrightarrow>
          body = request_body (snd (OBOptions_init args))
                   (setup_network_interface (snd (OBOptions_init args))) SERVER"
    using single_flow [OF run only] by blast
  have count: "map_of (request_body (snd (OBOptions_init args))
                   (setup_network_interface (snd (OBOptions_init args))) SERVER) ''count''
                 = Some (JInt (args_num_servers args))"
    by (simp add: request_body_count init_counts)
  show "\<forall>p z body answer. BulkInsert p z body answer \<in> set log \<longrightarrow>
          body = request_body (snd (OBOptions_init args))
                   (setup_network_interface (snd (OBOptions_init args))) SERVER
          \<and> map_of body ''count'' = Some (JInt (args_num_servers args))
          \<and> 0 < args_num_servers args"
    using bodies count s by metis
qed

lemma example_flow_done:
  "create_instances 5 (example_provider (Inr example_operation) ''DONE'' None) opts ni role log
   = (Return (), log @ example_flow opts ni role)"
  by (simp add: create_instances_def wait_for_operation_def example_provider_def
        example_operation_def example_flow_def submission_def eval_nat_numeral Let_def)

lemma example_main_done:
  "main 5 (example_provider (Inr example_operation) ''DONE'' None) (example_args None True 1 1)
   = (Return (), Some (snd (OBOptions_init (example_args None True 1 1))),
      example_preamble_log
      @ example_flow (snd (OBOptions_init (example_args None True 1 1)))
          (setup_network_interface (snd (OBOptions_init (example_args None True 1 1)))) SERVER
      @ example_flow (snd (OBOptions_init (example_args None True 1 1)))
          (setup_network_interface (snd (OBOptions_init (example_args None True 1 1)))) CLIENT)"
  by (simp add: example_preamble provision_def example_counts example_flow_done)

lemma example_main_clients_only:
  "main 5 (example_provider (Inr example_operation) ''DONE'' None) (example_args None True (- 1) 2)
   = (Return (), Some (snd (OBOptions_init (example_args None True (- 1) 2))),
      example_preamble_log
      @ example_flow (snd (OBOptions_init (example_args None True (- 1) 2)))
          (setup_network_interface (snd (OBOptions_init (example_args None True (- 1) 2)))) CLIENT)"
  by (simp add: example_preamble provision_def example_counts example_flow_done)

lemma example_main_servers_only:
  "main 5 (example_provider (Inr example_operation) ''DONE'' None) (example_args None True 2 0)
   = (Return (), Some (snd (OBOptions_init (example_args None True 2 0))),
      example_preamble_log
      @ example_flow (snd (OBOptions_init (example_args None True 2 0)))
          (setup_network_interface (snd (OBOptions_init (example_args None True 2 0)))) SERVER)"
  by (simp add: example_preamble provision_def example_counts example_flow_done)

lemma calls_example_preamble: "calls example_preamble_log = []"
  by (simp add: example_preamble_log_def calls_def py_print_def)

lemma calls_example_flow:
  "calls (example_flow opts ni role)
   = submission opts ni role (Inr example_operation)
     # waits_on opts example_operation [example_operation, example_operation \<lparr> op_status := ''DONE'' \<rparr>]"
  by (simp add: example_flow_def calls_def submission_def waits_on_def py_print_def
        example_operation_def)

lemma example_flow_unstructured:
  "create_instances fuel (example_provider (Inl bad_gateway) final err) opts ni role log
   = (Raised AttributeError, log @ [submission opts ni role (Inl bad_gateway)])"
  by (simp add: create_instances_def example_provider_answers bad_gateway_def
        error_message_def submission_def)

text \<open>
  C5, as stated, fails for a rejection whose body has no \<open>error\<close> object: the handler
  raises \<open>AttributeError\<close> at \<open>.get("message")\<close>. The run ends with the rejected server
  submission as its last event: nothing is reported, and the only line printed in the
  whole run is the NIC warning of the constructor.
\<close>

theorem unstructured_rejection_counterexample:
  "main 5 (example_provider (Inl bad_gateway) ''DONE'' None) (example_args None True 1 1)
   = (Raised AttributeError, Some (snd (OBOptions_init (example_args None True 1 1))),
      example_preamble_log
      @ [submission (snd (OBOptions_init (example_args None True 1 1)))
           (setup_network_interface (snd (OBOptions_init (example_args None True 1 1))))
           SERVER (Inl bad_gateway)])"
  by (simp add: example_preamble provision_def example_counts example_flow_unstructured)

theorem rejected_submission_halts_witness:
  "main 5 (example_provider (Inl quota_exceeded) ''DONE'' None) (example_args None True 1 1)
     = (SysExit 1, Some (snd (OBOptions_init (example_args None True 1 1))),
        example_preamble_log
        @ BulkInsert ''proj'' ''us-central1-a''
            (request_body (snd (OBOptions_init (example_args None True 1 1)))
               (setup_network_interface (snd (OBOptions_init (example_args None True 1 1)))) SERVER)
            (Inl (HttpError (Parsed (JObj [(''error'', JObj [(''code'', JInt 403),
                                                            (''message'', JStr ''quota exceeded'')])]))))
        # [py_print ''Error: quota exceeded''])
   \<and> map_of [(''error'', JObj [(''code'', JInt 403), (''message'', JStr ''quota exceeded'')])] ''error''
       = Some (JObj [(''code'', JInt 403), (''message'', JStr ''quota exceeded'')])
   \<and> map_of [(''code'', JInt 403), (''message'', JStr ''quota exceeded'')] ''message''
       = Some (JStr ''quota exceeded'')
   \<and> calls [py_print ''Error: quota exceeded''] = []
   \<and> calls (snd (snd (main 5 (example_provider (Inl quota_exceeded) ''DONE'' None)
                          (example_args None True 1 1))))
       = [submission (snd (OBOptions_init (example_args None True 1 1)))
            (setup_network_interface (snd (OBOptions_init (example_args None True 1 1))))
            SERVER (Inl quota_exceeded)]"
proof -
  let ?opts = "snd (OBOptions_init (example_args None True 1 1))"
  let ?ni = "setup_network_interface ?opts"
  let ?e = "[(''code'', JInt 403), (''message'', JStr ''quota exceeded'')]"
  let ?d = "[(''error'', JObj ?e)]"
  have shape: "example_preamble_log @ [submission ?opts ?ni SERVER (Inl quota_exceeded),
                                       py_print ''Error: quota exceeded'']
      = example_preamble_log
        @ BulkInsert ''proj'' ''us-central1-a'' (request_body ?opts ?ni SERVER)
            (Inl (HttpError (Parsed (JObj ?d))))
        # [py_print ''Error: quota exceeded'']"
    by (simp add: submission_def quota_exceeded_def example_opts)
  note halted = rejected_submission_halts [OF example_main_rejected shape]
  have d: "map_of ?d ''error'' = Some (JObj ?e)" by simp
  have e: "map_of ?e ''message'' = Some (JStr ''quota exceeded'')" by simp
  have run: "main 5 (example_provider (Inl quota_exceeded) ''DONE'' None) (example_args None True 1 1)
     = (SysExit 1, Some ?opts,
        example_preamble_log
        @ BulkInsert ''proj'' ''us-central1-a'' (request_body ?opts ?ni SERVER)
            (Inl (HttpError (Parsed (JObj ?d))))
        # [py_print ''Error: quota exceeded''])"
    using example_main_rejected shape by simp
  have quiet: "calls [py_print ''Error: quota exceeded''] = []"
    by (rule conjunct1 [OF halted])
  have submitted: "calls (snd (snd (main 5 (example_provider (Inl quota_exceeded) ''DONE'' None)
                          (example_args None True 1 1))))
       = [submission ?opts ?ni SERVER (Inl quota_exceeded)]"
    unfolding example_main_rejected
    using quiet calls_submission [of ?opts ?ni SERVER "Inl quota_exceeded" "[py_print ''Error: quota exceeded'']"]
    by (simp add: calls_append calls_example_preamble)
  show ?thesis
    by (intro conjI run d e quiet submitted)
qed

theorem roles_run_in_sequence_witness:
  "0 < args_num_servers (example_args None True 1 1)
   \<and> 0 < args_num_clients (example_args None True 1 1)
   \<and> calls (snd (snd (main 5 (example_provider (Inr example_operation) ''DONE'' None)
                          (example_args None True 1 1))))
       = submission (snd (OBOptions_init (example_args None True 1 1)))
           (setup_network_interface (snd (OBOptions_init (example_args None True 1 1))))
           SERVER (Inr example_operation)
         # waits_on (snd (OBOptions_init (example_args None True 1 1))) example_operation
             [example_operation, example_operation \<lparr> op_status := ''DONE'' \<rparr>]
         @ submission (snd (OBOptions_init (example_args None True 1 1)))
             (setup_network_interface (snd (OBOptions_init (example_args None True 1 1))))
             CLIENT (Inr example_operation)
         # waits_on (snd (OBOptions_init (example_args None True 1 1))) example_operation
             [example_operation, example_operation \<lparr> op_status := ''DONE'' \<rparr>]"
  using roles_run_in_sequence [OF example_main_done]
  by (simp add: example_counts example_main_done calls_append calls_example_preamble
        calls_example_flow)

theorem non_positive_role_is_skipped_witness:
  "args_num_servers (example_args None True (- 1) 2) \<le> 0
   \<and> 1 \<le> args_num_servers (example_args None True (- 1) 2)
          + args_num_clients (example_args None True (- 1) 2)
   \<and> calls (snd (snd (main 5 (example_provider (Inr example_operation) ''DONE'' None)
                          (example_args None True (- 1) 2))))
       = submission (snd (OBOptions_init (example_args None True (- 1) 2)))
           (setup_network_interface (snd (OBOptions_init (example_args None True (- 1) 2))))
           CLIENT (Inr example_operation)
         # waits_on (snd (OBOptions_init (example_args None True (- 1) 2))) example_operation
             [example_operation, example_operation \<lparr> op_status := ''DONE'' \<rparr>]
   \<and> args_num_clients (example_args None True 2 0) \<le> 0
   \<and> 1 \<le> args_num_servers (example_args None True 2 0)
          + args_num_clients (example_args None True 2 0)
   \<and> calls (snd (snd (main 5 (example_provider (Inr example_operation) ''DONE'' None)
                          (example_args None True 2 0))))
       = submission (snd (OBOptions_init (example_args None True 2 0)))
           (setup_network_interface (snd (OBOptions_init (example_args None True 2 0))))
           SERVER (Inr example_operation)
         # waits_on (snd (OBOptions_init (example_args None True 2 0))) example_operation
             [example_operation, example_operation \<lparr> op_status := ''DONE'' \<rparr>]"
  using non_positive_role_is_skipped [OF example_main_clients_only]
    non_positive_role_is_skipped [OF example_main_servers_only]
  by (simp add: example_counts example_main_clients_only example_main_servers_only
        calls_append calls_example_preamble calls_example_flow)

end
